theory Spec2Isabelle
  imports Complex_Main
begin

section \<open>Python values used by the handlers of main.py\<close>

subsection \<open>Strings\<close>

text \<open>
  A Python \<^verbatim>\<open>str\<close> is a sequence of Unicode code points, and slicing and
  \<^verbatim>\<open>replace\<close> count code points. A code point is a natural number here, a
  string a list of them; \<open>lit\<close> turns an ASCII literal of this theory into such a
  string.
\<close>

type_synonym codepoint = nat
type_synonym pystr = "codepoint list"

definition lit :: "string \<Rightarrow> pystr" where
  "lit s = map of_char s"

definition dash :: codepoint where
  "dash = 45"

text \<open>
  \<^verbatim>\<open>s.replace(old, new)\<close>: every non-overlapping occurrence of \<open>old\<close>, found
  from the left, is replaced. With an empty \<open>old\<close> Python puts \<open>new\<close> before every
  character and at the end.
\<close>

fun intersperse_new :: "'a list \<Rightarrow> 'a list \<Rightarrow> 'a list" where
  "intersperse_new new [] = new"
| "intersperse_new new (c # cs) = new @ c # intersperse_new new cs"

function replace_from :: "'a list \<Rightarrow> 'a list \<Rightarrow> 'a list \<Rightarrow> 'a list" where
  "replace_from old new [] = []"
| "replace_from old new (c # cs) =
     (if old \<noteq> [] \<and> take (length old) (c # cs) = old
      then new @ replace_from old new (drop (length old) (c # cs))
      else c # replace_from old new cs)"
  by pat_completeness auto
termination
  by (relation "measure (\<lambda>(old, new, s). length s)") auto

definition py_replace :: "'a list \<Rightarrow> 'a list \<Rightarrow> 'a list \<Rightarrow> 'a list" where
  "py_replace s old new = (if old = [] then intersperse_new new s else replace_from old new s)"

text \<open>\<^verbatim>\<open>s[:n]\<close> for a literal \<open>n \<ge> 0\<close>: the first \<open>n\<close> items, or all of a shorter \<open>s\<close>.\<close>

definition slice_to :: "nat \<Rightarrow> 'a list \<Rightarrow> 'a list" where
  "slice_to n s = take n s"

text \<open>
  \<^verbatim>\<open>str.upper\<close> is the Unicode case mapping of the Python runtime. The handlers
  take it as the parameter \<open>upper\<close>; \<open>ascii_upper\<close> is what it does on ASCII text.
\<close>

definition ascii_upper_cp :: "codepoint \<Rightarrow> codepoint" where
  "ascii_upper_cp c = (if 97 \<le> c \<and> c \<le> 122 then c - 32 else c)"

definition ascii_upper :: "pystr \<Rightarrow> pystr" where
  "ascii_upper s = map ascii_upper_cp s"

definition is_ascii :: "pystr \<Rightarrow> bool" where
  "is_ascii s = list_all (\<lambda>c. c < 128) s"

subsection \<open>Errors\<close>

text \<open>The exceptions that the modelled operations can raise; \<open>Inl\<close> carries one.\<close>

datatype pyerror = IndexError | ZeroDivisionError | OverflowError

definition bind_err :: "'e + 'a \<Rightarrow> ('a \<Rightarrow> 'e + 'b) \<Rightarrow> 'e + 'b" where
  "bind_err m f = (case m of Inl e \<Rightarrow> Inl e | Inr x \<Rightarrow> f x)"

subsection \<open>Floats\<close>

text \<open>
  A Python \<^verbatim>\<open>float\<close> is an IEEE 754 binary64 value. A finite one is kept as the
  rational number it denotes (\<open>Finite 0\<close> is \<open>+0.0\<close>, \<open>NegZero\<close> is \<open>-0.0\<close>),
  and every operation returns the exact result rounded to the nearest binary64 value,
  ties to even, as the hardware does.
\<close>

datatype pyfloat = Finite rat | NegZero | PosInf | NegInf | NaN

datatype pynum = PyInt int | PyFloat pyfloat

text \<open>\<open>log2_up a\<close> is \<open>\<lfloor>log\<^sub>2 a\<rfloor>\<close> for \<open>a \<ge> 1\<close>; \<open>log2_down a\<close> is \<open>- \<lfloor>log\<^sub>2 a\<rfloor>\<close> for \<open>0 < a < 1\<close>.\<close>

function log2_up :: "rat \<Rightarrow> nat" where
  "log2_up a = (if a < 2 then 0 else Suc (log2_up (a / 2)))"
  by pat_completeness auto
termination
proof (relation "measure (\<lambda>a. nat \<lfloor>a\<rfloor>)")
  fix a :: rat
  assume big: "\<not> a < 2"
  then have "a / 2 \<le> a - 1" by simp
  then have "\<lfloor>a / 2\<rfloor> \<le> \<lfloor>a - 1\<rfloor>" by (rule floor_mono)
  moreover have "1 \<le> \<lfloor>a\<rfloor>" using big by (simp add: le_floor_iff)
  ultimately show "(a / 2, a) \<in> measure (\<lambda>a. nat \<lfloor>a\<rfloor>)" by simp
qed simp

function log2_down :: "rat \<Rightarrow> nat" where
  "log2_down a = (if a \<le> 0 \<or> 1 \<le> a then 0 else Suc (log2_down (2 * a)))"
  by pat_completeness auto
termination
proof (relation "measure (\<lambda>a. nat \<lceil>1 / a\<rceil>)")
  fix a :: rat
  assume "\<not> (a \<le> 0 \<or> 1 \<le> a)"
  then have a: "0 < a" "a < 1" by simp_all
  have "\<lceil>1 / (2 * a)\<rceil> < \<lceil>1 / a\<rceil>"
  proof (cases "1 / a \<le> 2")
    case True
    then have "1 / (2 * a) \<le> 1" using a by (simp add: field_simps)
    then have "\<lceil>1 / (2 * a)\<rceil> \<le> 1" by (simp add: ceiling_le_iff)
    moreover have "1 < 1 / a" using a by simp
    then have "1 < \<lceil>1 / a\<rceil>" by (simp add: less_ceiling_iff)
    ultimately show ?thesis by linarith
  next
    case False
    then have "1 / (2 * a) \<le> 1 / a - 1" using a by (simp add: field_simps)
    then have "\<lceil>1 / (2 * a)\<rceil> \<le> \<lceil>1 / a - 1\<rceil>" by (rule ceiling_mono)
    then show ?thesis by simp
  qed
  moreover have "0 < \<lceil>1 / a\<rceil>" using a by (simp add: less_ceiling_iff)
  ultimately show "(2 * a, a) \<in> measure (\<lambda>a. nat \<lceil>1 / a\<rceil>)" by simp
qed simp

declare log2_up.simps [simp del] log2_down.simps [simp del]

definition pow2 :: "int \<Rightarrow> rat" where
  "pow2 k = (if 0 \<le> k then 2 ^ nat k else 1 / 2 ^ nat (- k))"

definition floor_log2 :: "rat \<Rightarrow> int" where
  "floor_log2 a = (if 1 \<le> a then int (log2_up a) else - int (log2_down a))"

definition round_half_even :: "rat \<Rightarrow> int" where
  "round_half_even q =
     (let f = \<lfloor>q\<rfloor>; r = q - of_int f
      in if r < 1 / 2 then f else if 1 / 2 < r then f + 1 else if even f then f else f + 1)"

definition signed_zero :: "bool \<Rightarrow> pyfloat" where
  "signed_zero neg = (if neg then NegZero else Finite 0)"

definition signed_inf :: "bool \<Rightarrow> pyfloat" where
  "signed_inf neg = (if neg then NegInf else PosInf)"

text \<open>
  The binary64 value nearest to a magnitude \<open>a > 0\<close>, with the sign \<open>neg\<close>: 53
  significant bits, the exponent of the last bit not below \<open>-1074\<close> (subnormal
  numbers), infinity from \<open>2\<^sup>1\<^sup>0\<^sup>2\<^sup>4\<close> on.
\<close>

definition round_to_double :: "bool \<Rightarrow> rat \<Rightarrow> pyfloat" where
  "round_to_double neg a =
     (let e = max (floor_log2 a - 52) (- 1074);
          m = round_half_even (a / pow2 e);
          v = of_int m * pow2 e
      in if m = 0 then signed_zero neg
         else if pow2 1024 \<le> v then signed_inf neg
         else Finite (if neg then - v else v))"

text \<open>A decimal literal of the source, such as \<^verbatim>\<open>0.1\<close>, denotes the nearest binary64 value.\<close>

definition float_literal :: "rat \<Rightarrow> pyfloat" where
  "float_literal q = (if q = 0 then Finite 0 else round_to_double (q < 0) \<bar>q\<bar>)"

definition float_is_zero :: "pyfloat \<Rightarrow> bool" where
  "float_is_zero x = (x = Finite 0 \<or> x = NegZero)"

definition float_is_inf :: "pyfloat \<Rightarrow> bool" where
  "float_is_inf x = (x = PosInf \<or> x = NegInf)"

fun float_is_neg :: "pyfloat \<Rightarrow> bool" where
  "float_is_neg (Finite q) = (q < 0)"
| "float_is_neg NegZero = True"
| "float_is_neg NegInf = True"
| "float_is_neg PosInf = False"
| "float_is_neg NaN = False"

fun float_val :: "pyfloat \<Rightarrow> rat" where
  "float_val (Finite q) = q"
| "float_val x = 0"

text \<open>\<^verbatim>\<open>a / b\<close> on floats: Python raises on a zero divisor, and divides as IEEE 754 otherwise.\<close>

definition float_truediv :: "pyfloat \<Rightarrow> pyfloat \<Rightarrow> pyerror + pyfloat" where
  "float_truediv a b =
     (if float_is_zero b then Inl ZeroDivisionError
      else if a = NaN \<or> b = NaN then Inr NaN
      else if float_is_inf a then
        (if float_is_inf b then Inr NaN
         else Inr (signed_inf (float_is_neg a \<noteq> float_is_neg b)))
      else if float_is_inf b \<or> float_is_zero a then
        Inr (signed_zero (float_is_neg a \<noteq> float_is_neg b))
      else Inr (round_to_double (float_is_neg a \<noteq> float_is_neg b)
             \<bar>float_val a / float_val b\<bar>))"

text \<open>\<^verbatim>\<open>a - b\<close> on floats; an exact zero is \<open>-0.0\<close> only for \<open>(-0.0) - (+0.0)\<close>.\<close>

definition float_sub :: "pyfloat \<Rightarrow> pyfloat \<Rightarrow> pyfloat" where
  "float_sub a b =
     (if a = NaN \<or> b = NaN then NaN
      else if float_is_inf a then
        (if float_is_inf b \<and> float_is_neg a = float_is_neg b then NaN else a)
      else if float_is_inf b then signed_inf (\<not> float_is_neg b)
      else let r = float_val a - float_val b
           in if r = 0 then signed_zero (a = NegZero \<and> b = Finite 0)
              else round_to_double (r < 0) \<bar>r\<bar>)"

text \<open>
  \<^verbatim>\<open>round(x, ndigits)\<close> for a float \<open>x\<close> and \<open>ndigits \<ge> 0\<close>, as CPython computes
  it: NaN and the infinities round to themselves; a finite \<open>x\<close> is written as the
  decimal with \<open>ndigits\<close> places nearest to its exact value (ties to even), and that
  decimal is read back as a float, with OverflowError when it is out of range.
\<close>

definition float_round :: "pyfloat \<Rightarrow> nat \<Rightarrow> pyerror + pyfloat" where
  "float_round x ndigits =
     (case x of
        Finite q \<Rightarrow>
          if ndigits > 323 then Inr x
          else
            let k = round_half_even (\<bar>q\<bar> * 10 ^ ndigits)
            in if k = 0 then Inr (signed_zero (q < 0))
               else (let r = round_to_double (q < 0) (of_int k / 10 ^ ndigits)
                     in if float_is_inf r then Inl OverflowError else Inr r)
      | _ \<Rightarrow> Inr x)"

section \<open>Identifier derivation\<close>

text \<open>
  submit_form, lines 99-101:
  \<^verbatim>\<open>fecha.replace("-", "") + str(provedor[:3]).upper() + str(origen[:3]).upper()
    + "-" + str(lote_bolsa).upper()\<close>
\<close>

definition derive_receiving_id ::
  "(pystr \<Rightarrow> pystr) \<Rightarrow> pystr \<Rightarrow> pystr \<Rightarrow> pystr \<Rightarrow> pystr \<Rightarrow> pystr" where
  "derive_receiving_id upper fecha provedor origen lote_bolsa =
     py_replace fecha (lit ''-'') (lit []) @ upper (slice_to 3 provedor)
       @ upper (slice_to 3 origen) @ lit ''-'' @ upper lote_bolsa"


section \<open>The spreadsheet\<close>

text \<open>
  \<^verbatim>\<open>get_sheet(name)\<close> returns one of three worksheets of the spreadsheet. The
  spreadsheet library is not part of the repository; what the handlers rely on is
  modelled. A store gives, for each worksheet, the rows that \<^verbatim>\<open>get_all_values\<close>
  returns, each row the list of its cells; the call returns them in order, every cell
  as text. A string cell reads back as it was written; the text of a number cell is
  the sheet's formatting, the parameter \<open>fmt\<close>. For a worksheet without any value
  the library returns \<^verbatim>\<open>[[]]\<close> (one row without cells; \<^verbatim>\<open>[]\<close> in its
  older versions), and it fills the shorter rows of a worksheet with empty strings:
  both lists are stores here, as is every other list of rows. \<^verbatim>\<open>append_row\<close>
  adds a row after the rows of the worksheet. After an append to a worksheet returned
  as \<^verbatim>\<open>[[]]\<close> the library returns the new row alone, not an empty row
  followed by it: of such an append only the last row is stated. Requests are handled
  one at a time.
\<close>

datatype cell = Str pystr | Num pynum

datatype worksheet = Recebimiento | Trillado | Perfilado

type_synonym store = "worksheet \<Rightarrow> cell list list"

fun cell_text :: "(pynum \<Rightarrow> pystr) \<Rightarrow> cell \<Rightarrow> pystr" where
  "cell_text fmt (Str s) = s"
| "cell_text fmt (Num n) = fmt n"

definition get_all_values :: "(pynum \<Rightarrow> pystr) \<Rightarrow> store \<Rightarrow> worksheet \<Rightarrow> pystr list list" where
  "get_all_values fmt st sheet = map (map (cell_text fmt)) (st sheet)"

definition append_row :: "store \<Rightarrow> worksheet \<Rightarrow> cell list \<Rightarrow> store" where
  "append_row st sheet row = st(sheet := st sheet @ [row])"

subsection \<open>Lists\<close>

text \<open>\<^verbatim>\<open>xs[i]\<close>: a negative index counts from the end, and an index out of range raises.\<close>

definition py_index :: "'a list \<Rightarrow> int \<Rightarrow> pyerror + 'a" where
  "py_index xs i =
     (if 0 \<le> i \<and> i < int (length xs) then Inr (xs ! nat i)
      else if i < 0 \<and> - int (length xs) \<le> i then Inr (xs ! nat (int (length xs) + i))
      else Inl IndexError)"

text \<open>\<^verbatim>\<open>[f(r) for r in rows]\<close>, where \<open>f\<close> may raise: the first exception ends the loop.\<close>

fun comprehension :: "('a \<Rightarrow> pyerror + 'b) \<Rightarrow> 'a list \<Rightarrow> pyerror + 'b list" where
  "comprehension f [] = Inr []"
| "comprehension f (r # rows) =
     bind_err (f r) (\<lambda>y. bind_err (comprehension f rows) (\<lambda>ys. Inr (y # ys)))"

text \<open>\<^verbatim>\<open>rows[1:]\<close>\<close>

definition slice_from1 :: "'a list \<Rightarrow> 'a list" where
  "slice_from1 rows = drop 1 rows"

section \<open>The handlers\<close>

text \<open>
  What a handler hands to the template: the status message, the echo of the
  submission, the defaults of the form and the selection list (the keys
  \<^verbatim>\<open>recibimiento_ids\<close> and \<^verbatim>\<open>id_trillado_options\<close>; absent on the receiving form).
\<close>

record response =
  template :: string
  msg :: "pystr option"
  last_submission :: "(string \<times> cell) list option"
  defaults :: "(string \<times> cell) list"
  id_options :: "pystr list option"

definition cross_mark :: codepoint where
  "cross_mark = 0x274C"

definition check_mark :: codepoint where
  "check_mark = 0x2705"

subsection \<open>Recebimiento\<close>

text \<open>
  The parameters of submit_form. A parameter declared \<^verbatim>\<open>float = Form(0)\<close> is the
  float parsed from the form, or the default, the integer 0, when the form omits it. The
  default is taken as the float \<open>+0.0\<close>: the two are equal in every comparison and
  division, and the row and the echo then hold \<^verbatim>\<open>0.0\<close> where Python holds
  \<^verbatim>\<open>0\<close>.
  A checkbox that is not ticked arrives as \<^verbatim>\<open>None\<close>.
\<close>

record recebimiento_form =
  fecha :: pystr
  provedor :: pystr
  ciudad :: pystr
  origen :: pystr
  lote_bolsa :: pystr
  cantidad_kg :: pyfloat
  humedad :: pyfloat
  motorista :: pystr
  vehiculo_placa :: pystr
  observacion :: pystr
  libre_contaminacion :: "pystr option"
  vehiculo_sin_contaminacion :: "pystr option"
  buen_estado :: "pystr option"
  responsable :: pystr

text \<open>\<^verbatim>\<open>x if x == "yes" else "no"\<close>, where \<open>x\<close> may be \<^verbatim>\<open>None\<close>\<close>

definition checkbox :: "pystr option \<Rightarrow> pystr" where
  "checkbox x = (if x = Some (lit ''yes'') then lit ''yes'' else lit ''no'')"

text \<open>The list \<^verbatim>\<open>row\<close> of submit_form, lines 104-109.\<close>

definition recebimiento_row :: "(pystr \<Rightarrow> pystr) \<Rightarrow> recebimiento_form \<Rightarrow> cell list" where
  "recebimiento_row upper f =
     [Str (derive_receiving_id upper (fecha f) (provedor f) (origen f) (lote_bolsa f)),
      Str (fecha f), Str (provedor f), Str (ciudad f), Str (origen f), Str (lote_bolsa f),
      Num (PyFloat (cantidad_kg f)), Num (PyFloat (humedad f)), Str (motorista f),
      Str (vehiculo_placa f), Str (observacion f), Str (checkbox (libre_contaminacion f)),
      Str (checkbox (vehiculo_sin_contaminacion f)), Str (checkbox (buen_estado f)),
      Str (responsable f)]"

text \<open>The dictionary \<^verbatim>\<open>defaults\<close> of submit_form, lines 136-151.\<close>

definition recebimiento_defaults :: "recebimiento_form \<Rightarrow> (string \<times> cell) list" where
  "recebimiento_defaults f =
     [(''fecha'', Str (fecha f)), (''provedor'', Str (provedor f)),
      (''ciudad'', Str (ciudad f)), (''origen'', Str (origen f)),
      (''lote_bolsa'', Str (lote_bolsa f)), (''cantidad_kg'', Num (PyFloat (cantidad_kg f))),
      (''humedad'', Num (PyFloat (humedad f))), (''motorista'', Str (motorista f)),
      (''vehiculo_placa'', Str (vehiculo_placa f)), (''observacion'', Str (observacion f)),
      (''libre_contaminacion'', Str (checkbox (libre_contaminacion f))),
      (''vehiculo_sin_contaminacion'', Str (checkbox (vehiculo_sin_contaminacion f))),
      (''buen_estado'', Str (checkbox (buen_estado f))),
      (''responsable'', Str (responsable f))]"

text \<open>\<^verbatim>\<open>existing_ids = [r[0] for r in sheet.get_all_values()]\<close>, line 112.\<close>

definition recebimiento_existing_ids :: "pystr list list \<Rightarrow> pyerror + pystr list" where
  "recebimiento_existing_ids rows = comprehension (\<lambda>r. py_index r 0) rows"

definition submit_form ::
  "(pystr \<Rightarrow> pystr) \<Rightarrow> (pynum \<Rightarrow> pystr) \<Rightarrow> store \<Rightarrow> recebimiento_form
     \<Rightarrow> pyerror + store \<times> response" where
  "submit_form upper fmt st f =
     (let id_recibimiento =
            derive_receiving_id upper (fecha f) (provedor f) (origen f) (lote_bolsa f);
          row = recebimiento_row upper f
      in bind_err (recebimiento_existing_ids (get_all_values fmt st Recebimiento))
           (\<lambda>existing_ids.
             let (st', message) =
                   (if id_recibimiento \<in> set existing_ids
                    then (st, cross_mark # lit '' Ya esta registrado! ID: '' @ id_recibimiento)
                    else (append_row st Recebimiento row,
                          check_mark # lit '' Registered successfully! ID: '' @ id_recibimiento))
             in Inr (st',
                  \<lparr>template = ''recebimiento.html'', msg = Some message,
                   last_submission =
                     Some ((''id_recibimiento'', Str id_recibimiento) # recebimiento_defaults f),
                   defaults = recebimiento_defaults f, id_options = None\<rparr>)))"

subsection \<open>Trillado\<close>

record trillado_form =
  id_recibimiento :: pystr
  fecha :: pystr
  grano_num :: pystr
  cantidad_kg :: pyfloat
  observacion :: pystr

text \<open>\<^verbatim>\<open>[r[0] for r in all_rows[1:]] if len(all_rows) > 1 else []\<close>, lines 171 and 204.\<close>

definition recibimiento_ids :: "pystr list list \<Rightarrow> pyerror + pystr list" where
  "recibimiento_ids all_rows =
     (if length all_rows > 1 then comprehension (\<lambda>r. py_index r 0) (slice_from1 all_rows)
      else Inr [])"

text \<open>\<^verbatim>\<open>x[0] if x else ""\<close>\<close>

definition first_or_empty :: "pystr list \<Rightarrow> pystr" where
  "first_or_empty ids = (case ids of [] \<Rightarrow> lit [] | x # _ \<Rightarrow> x)"

text \<open>The GET handler; \<open>today\<close> is \<^verbatim>\<open>date.today().isoformat()\<close>.\<close>

definition trillado_form_page ::
  "pystr \<Rightarrow> (pynum \<Rightarrow> pystr) \<Rightarrow> store \<Rightarrow> pyerror + response" where
  "trillado_form_page today fmt st =
     bind_err (recibimiento_ids (get_all_values fmt st Recebimiento)) (\<lambda>ids.
       Inr \<lparr>template = ''trillado.html'', msg = None, last_submission = None,
            defaults =
              [(''id_recibimiento'', Str (first_or_empty ids)), (''fecha'', Str today),
               (''grano_num'', Str (lit [])), (''cantidad_kg'', Str (lit [])),
               (''observacion'', Str (lit []))],
            id_options = Some ids\<rparr>)"

text \<open>\<^verbatim>\<open>f"{id_recibimiento}-{grano_num}"\<close>, line 208.\<close>

definition derive_hulling_id :: "pystr \<Rightarrow> pystr \<Rightarrow> pystr" where
  "derive_hulling_id receiving_id grain = receiving_id @ lit ''-'' @ grain"

text \<open>\<^verbatim>\<open>[r[-1] for r in trillado_rows[1:]] if len(trillado_rows) > 1 else []\<close>, line 211.\<close>

definition existing_ids_trillado :: "pystr list list \<Rightarrow> pyerror + pystr list" where
  "existing_ids_trillado trillado_rows =
     (if length trillado_rows > 1
      then comprehension (\<lambda>r. py_index r (- 1)) (slice_from1 trillado_rows)
      else Inr [])"

definition trillado_defaults :: "trillado_form \<Rightarrow> (string \<times> cell) list" where
  "trillado_defaults f =
     [(''id_recibimiento'', Str (id_recibimiento f)), (''fecha'', Str (trillado_form.fecha f)),
      (''grano_num'', Str (grano_num f)),
      (''cantidad_kg'', Num (PyFloat (trillado_form.cantidad_kg f))),
      (''observacion'', Str (trillado_form.observacion f))]"

definition trillado_row :: "trillado_form \<Rightarrow> cell list" where
  "trillado_row f =
     [Str (id_recibimiento f), Str (trillado_form.fecha f), Str (grano_num f),
      Num (PyFloat (trillado_form.cantidad_kg f)), Str (trillado_form.observacion f),
      Str (derive_hulling_id (id_recibimiento f) (grano_num f))]"

definition trillado_submit_form ::
  "(pynum \<Rightarrow> pystr) \<Rightarrow> store \<Rightarrow> trillado_form \<Rightarrow> pyerror + store \<times> response" where
  "trillado_submit_form fmt st f =
     bind_err (recibimiento_ids (get_all_values fmt st Recebimiento)) (\<lambda>ids.
       let id_trillado = derive_hulling_id (id_recibimiento f) (grano_num f)
       in bind_err (existing_ids_trillado (get_all_values fmt st Trillado))
            (\<lambda>existing.
              let (st', message) =
                    (if id_trillado \<in> set existing
                     then (st, cross_mark # lit '' Ya esta registrado! ID Trillado: '' @ id_trillado)
                     else (append_row st Trillado (trillado_row f),
                           check_mark # lit '' Trillado registrado! ID Trillado: '' @ id_trillado))
              in Inr (st',
                   \<lparr>template = ''trillado.html'', msg = Some message,
                    last_submission =
                      Some (trillado_defaults f @ [(''id_trillado'', Str id_trillado)]),
                    defaults = trillado_defaults f, id_options = Some ids\<rparr>)))"

subsection \<open>Perfilado\<close>

text \<open>
  perfilado_submit_form, lines 324-327:
  \<^verbatim>\<open>if muestra_pergamino == 0: perda_casca = 0
  else: perda_casca = 1 - round(muestra_trillado/muestra_pergamino, 2)\<close>
  The first branch assigns the integer 0; in the second the integer 1 is converted to
  the float 1.0 for the subtraction.
\<close>

definition perda_casca :: "pyfloat \<Rightarrow> pyfloat \<Rightarrow> pyerror + pynum" where
  "perda_casca muestra_pergamino muestra_trillado =
     (if float_is_zero muestra_pergamino then Inr (PyInt 0)
      else bind_err (float_truediv muestra_trillado muestra_pergamino) (\<lambda>ratio.
           bind_err (float_round ratio 2) (\<lambda>rounded.
           Inr (PyFloat (float_sub (Finite 1) rounded)))))"

record perfilado_form =
  id_trillado :: pystr
  muestra_pergamino :: pyfloat
  humedad_pergamino :: pyfloat
  muestra_trillado :: pyfloat
  malla :: pystr
  densidad :: pyfloat
  humedad_grano_verde :: pyfloat
  negro :: pyfloat
  agrio :: pyfloat
  cereza_seca :: pyfloat
  dano_hongo :: pyfloat
  impurezas :: pyfloat
  dano_severo_insectos :: pyfloat
  parcial_negro :: pyfloat
  parcial_agrio :: pyfloat
  pergamino :: pyfloat
  flotador :: pyfloat
  inmaduro :: pyfloat
  averanado :: pyfloat
  concha :: pyfloat
  partido_mordido :: pyfloat
  cascara_pulpa_seca :: pyfloat
  dano_leve_insectos :: pyfloat
  perfil :: pystr
  caramelizacion :: pyfloat
  desarrollo :: pyfloat

text \<open>
  \<^verbatim>\<open>[r[5] for r in trillado_rows[1:] if len(r) > 5] if len(trillado_rows) > 1 else []\<close>,
  lines 253 and 332.
\<close>

definition id_trillado_options :: "pystr list list \<Rightarrow> pyerror + pystr list" where
  "id_trillado_options trillado_rows =
     (if length trillado_rows > 1
      then comprehension (\<lambda>r. py_index r 5)
             (filter (\<lambda>r. length r > 5) (slice_from1 trillado_rows))
      else Inr [])"

definition perfilado_form_page :: "(pynum \<Rightarrow> pystr) \<Rightarrow> store \<Rightarrow> pyerror + response" where
  "perfilado_form_page fmt st =
     bind_err (id_trillado_options (get_all_values fmt st Trillado)) (\<lambda>opts.
       Inr \<lparr>template = ''perfilado.html'', msg = None, last_submission = None,
            defaults =
              [(''id_trillado'', Str (first_or_empty opts)),
               (''muestra_pergamino'', Str (lit [])), (''humedad_pergamino'', Str (lit [])),
               (''muestra_trillado'', Str (lit [])), (''malla'', Str (lit [])),
               (''densidad'', Str (lit [])), (''humedad_grano_verde'', Str (lit [])),
               (''negro'', Str (lit [])), (''agrio'', Str (lit [])),
               (''cereza_seca'', Str (lit [])), (''dano_hongo'', Str (lit [])),
               (''impurezas'', Str (lit [])), (''dano_severo_insectos'', Str (lit [])),
               (''parcial_negro'', Str (lit [])), (''parcial_agrio'', Str (lit [])),
               (''pergamino'', Str (lit [])), (''flotador'', Str (lit [])),
               (''inmaduro'', Str (lit [])), (''averanado'', Str (lit [])),
               (''concha'', Str (lit [])), (''partido_mordido'', Str (lit [])),
               (''cascara_pulpa_seca'', Str (lit [])), (''dano_leve_insectos'', Str (lit [])),
               (''perfil'', Str (lit ''Frutos Citricos'')), (''caramelizacion'', Str (lit [])),
               (''desarrollo'', Str (lit []))],
            id_options = Some opts\<rparr>)"

text \<open>
  \<^verbatim>\<open>[r[0] for r in perfilado_rows[1:]] if len(perfilado_rows) > 1 else []\<close>, line 338.
\<close>

definition existing_ids_perfilado :: "pystr list list \<Rightarrow> pyerror + pystr list" where
  "existing_ids_perfilado perfilado_rows =
     (if length perfilado_rows > 1
      then comprehension (\<lambda>r. py_index r 0) (slice_from1 perfilado_rows)
      else Inr [])"

text \<open>The list \<^verbatim>\<open>row\<close> of perfilado_submit_form, lines 342-347.\<close>

definition perfilado_row :: "perfilado_form \<Rightarrow> pynum \<Rightarrow> cell list" where
  "perfilado_row f loss =
     [Str (id_trillado f), Num (PyFloat (muestra_pergamino f)),
      Num (PyFloat (humedad_pergamino f)), Num (PyFloat (muestra_trillado f)),
      Str (malla f), Num (PyFloat (densidad f)), Num (PyFloat (humedad_grano_verde f)),
      Num loss,
      Num (PyFloat (negro f)), Num (PyFloat (agrio f)), Num (PyFloat (cereza_seca f)),
      Num (PyFloat (dano_hongo f)), Num (PyFloat (impurezas f)),
      Num (PyFloat (dano_severo_insectos f)), Num (PyFloat (parcial_negro f)),
      Num (PyFloat (parcial_agrio f)),
      Num (PyFloat (pergamino f)), Num (PyFloat (flotador f)), Num (PyFloat (inmaduro f)),
      Num (PyFloat (averanado f)), Num (PyFloat (concha f)),
      Num (PyFloat (partido_mordido f)), Num (PyFloat (cascara_pulpa_seca f)),
      Num (PyFloat (dano_leve_insectos f)),
      Str (perfil f), Num (PyFloat (caramelizacion f)), Num (PyFloat (desarrollo f))]"

text \<open>The dictionary \<^verbatim>\<open>last_submission\<close> of perfilado_submit_form, lines 351-378.\<close>

definition perfilado_echo :: "perfilado_form \<Rightarrow> (string \<times> cell) list" where
  "perfilado_echo f =
     [(''id_trillado'', Str (id_trillado f)),
      (''muestra_pergamino'', Num (PyFloat (muestra_pergamino f))),
      (''humedad_pergamino'', Num (PyFloat (humedad_pergamino f))),
      (''muestra_trillado'', Num (PyFloat (muestra_trillado f))),
      (''malla'', Str (malla f)),
      (''densidad'', Num (PyFloat (densidad f))),
      (''humedad_grano_verde'', Num (PyFloat (humedad_grano_verde f))),
      (''negro'', Num (PyFloat (negro f))),
      (''agrio'', Num (PyFloat (agrio f))),
      (''cereza_seca'', Num (PyFloat (cereza_seca f))),
      (''dano_hongo'', Num (PyFloat (dano_hongo f))),
      (''impurezas'', Num (PyFloat (impurezas f))),
      (''dano_severo_insectos'', Num (PyFloat (dano_severo_insectos f))),
      (''parcial_negro'', Num (PyFloat (parcial_negro f))),
      (''parcial_agrio'', Num (PyFloat (parcial_agrio f))),
      (''pergamino'', Num (PyFloat (pergamino f))),
      (''flotador'', Num (PyFloat (flotador f))),
      (''inmaduro'', Num (PyFloat (inmaduro f))),
      (''averanado'', Num (PyFloat (averanado f))),
      (''concha'', Num (PyFloat (concha f))),
      (''partido_mordido'', Num (PyFloat (partido_mordido f))),
      (''cascara_pulpa_seca'', Num (PyFloat (cascara_pulpa_seca f))),
      (''dano_leve_insectos'', Num (PyFloat (dano_leve_insectos f))),
      (''perfil'', Str (perfil f)),
      (''caramelizacion'', Num (PyFloat (caramelizacion f))),
      (''desarrollo'', Num (PyFloat (desarrollo f)))]"

definition perfilado_submit_form ::
  "(pynum \<Rightarrow> pystr) \<Rightarrow> store \<Rightarrow> perfilado_form \<Rightarrow> pyerror + store \<times> response" where
  "perfilado_submit_form fmt st f =
     bind_err (perda_casca (muestra_pergamino f) (muestra_trillado f)) (\<lambda>loss.
     bind_err (id_trillado_options (get_all_values fmt st Trillado)) (\<lambda>opts.
     bind_err (existing_ids_perfilado (get_all_values fmt st Perfilado)) (\<lambda>existing.
       let (st', message) =
             (if id_trillado f \<in> set existing
              then (st, cross_mark # lit '' Ya esta registrado! ID Trillado: '' @ id_trillado f)
              else (append_row st Perfilado (perfilado_row f loss),
                    check_mark # lit '' Perfilado registrado! ID Trillado: '' @ id_trillado f))
       in Inr (st',
            \<lparr>template = ''perfilado.html'', msg = Some message,
             last_submission = Some (perfilado_echo f),
             defaults = perfilado_echo f, id_options = Some opts\<rparr>))))"

text \<open>
  The selection list of the profiling form in the words of its specification: the
  entry at index 5 of every row after the header row that has more than 5 columns, in
  the order of the rows.
\<close>

definition profiling_selection_spec :: "pystr list list \<Rightarrow> pystr list" where
  "profiling_selection_spec rows = map (\<lambda>r. r ! 5) (filter (\<lambda>r. 5 < length r) (drop 1 rows))"

section \<open>Example submissions\<close>

text \<open>Concrete inputs, used where a statement is evaluated.\<close>

definition example_recebimiento :: recebimiento_form where
  "example_recebimiento =
     \<lparr>recebimiento_form.fecha = lit ''2024-03-05'', provedor = lit ''Finca El Roble'',
      ciudad = lit ''Neiva'', origen = lit ''Huila'', lote_bolsa = lit ''B12'',
      recebimiento_form.cantidad_kg = Finite 70, humedad = Finite 11, motorista = lit ''Luis'',
      vehiculo_placa = lit ''ABC123'', recebimiento_form.observacion = lit [],
      libre_contaminacion = Some (lit ''yes''), vehiculo_sin_contaminacion = None,
      buen_estado = Some (lit ''yes''), responsable = lit ''Ana''\<rparr>"

definition example_trillado :: trillado_form where
  "example_trillado =
     \<lparr>id_recibimiento = lit ''20240305FINHUI-B12'', trillado_form.fecha = lit ''2024-03-06'',
      grano_num = lit ''G1'', trillado_form.cantidad_kg = Finite 60,
      trillado_form.observacion = lit []\<rparr>"

definition example_perfilado :: perfilado_form where
  "example_perfilado =
     \<lparr>id_trillado = lit ''20240305FINHUI-B12-G1'', muestra_pergamino = Finite 100,
      humedad_pergamino = Finite 11, muestra_trillado = Finite 90, malla = lit ''15'',
      densidad = Finite 700, humedad_grano_verde = Finite 11, negro = Finite 0, agrio = Finite 0,
      cereza_seca = Finite 0, dano_hongo = Finite 0, impurezas = Finite 0,
      dano_severo_insectos = Finite 0, parcial_negro = Finite 0, parcial_agrio = Finite 0,
      pergamino = Finite 0, flotador = Finite 0, inmaduro = Finite 0, averanado = Finite 0,
      concha = Finite 0, partido_mordido = Finite 0, cascara_pulpa_seca = Finite 0,
      dano_leve_insectos = Finite 0, perfil = lit ''Frutos Citricos'',
      caramelizacion = Finite 0, desarrollo = Finite 0\<rparr>"

text \<open>A spreadsheet whose three worksheets hold a header row only, and a number format.\<close>

definition header_only :: store where
  "header_only = (\<lambda>sheet. [[Str (lit ''id'')]])"

definition example_fmt :: "pynum \<Rightarrow> pystr" where
  "example_fmt n = lit ''0''"

section \<open>What a submission did\<close>

text \<open>
  The observable outcome of a POST handler on its target worksheet: the exception, or
  the content of the worksheet afterwards together with the status message.
\<close>

definition outcome ::
  "worksheet \<Rightarrow> pyerror + store \<times> response \<Rightarrow> pyerror + cell list list \<times> pystr option" where
  "outcome sheet result =
     (case result of Inl e \<Rightarrow> Inl e | Inr (st', r) \<Rightarrow> Inr (st' sheet, msg r))"

section \<open>Basic facts\<close>

lemma bind_err_Inl [simp]: "bind_err (Inl e) f = Inl e"
  by (simp add: bind_err_def)

lemma bind_err_Inr [simp]: "bind_err (Inr x) f = f x"
  by (simp add: bind_err_def)

lemma lit_Nil [simp]: "lit [] = []"
  by (simp add: lit_def)

lemma lit_dash: "lit ''-'' = [dash]"
  by (simp add: lit_def dash_def)

lemma replace_from_single: "replace_from [d] [] s = filter (\<lambda>c. c \<noteq> d) s"
  by (induction s) auto

lemma py_replace_dash: "py_replace s [dash] [] = filter (\<lambda>c. c \<noteq> dash) s"
  by (simp add: py_replace_def replace_from_single)

lemma py_index_first: "py_index r 0 = (case r of [] \<Rightarrow> Inl IndexError | x # _ \<Rightarrow> Inr x)"
  by (cases r) (simp_all add: py_index_def)

lemma py_index_last: "py_index r (- 1) = (if r = [] then Inl IndexError else Inr (last r))"
proof (cases "r = []")
  case True
  then show ?thesis by (simp add: py_index_def)
next
  case False
  then have "nat (int (length r) + - 1) = length r - 1"
    by (cases r) simp_all
  with False show ?thesis
    by (simp add: py_index_def last_conv_nth Suc_le_eq)
qed

lemma py_index_in_range: "n < length r \<Longrightarrow> py_index r (int n) = Inr (r ! n)"
  by (simp add: py_index_def)

lemma py_index_sixth: "5 < length r \<Longrightarrow> py_index r 5 = Inr (r ! 5)"
  using py_index_in_range [of 5 r] by simp

text \<open>A comprehension whose element expression never raises is a \<open>map\<close>.\<close>

lemma comprehension_map:
  "\<forall>r \<in> set rows. f r = Inr (g r) \<Longrightarrow> comprehension f rows = Inr (map g rows)"
  by (induction rows) simp_all

lemma comprehension_raises:
  "r \<in> set rows \<Longrightarrow> \<forall>x \<in> set rows. f x = Inl e \<or> (\<exists>y. f x = Inr y) \<Longrightarrow> f r = Inl e
     \<Longrightarrow> comprehension f rows = Inl e"
proof (induction rows)
  case Nil
  then show ?case by simp
next
  case (Cons x rows)
  show ?case
  proof (cases "f x")
    case (Inl e')
    with Cons.prems show ?thesis by auto
  next
    case (Inr y)
    with Cons.prems have "r \<in> set rows" by auto
    with Cons have "comprehension f rows = Inl e" by simp
    with Inr show ?thesis by simp
  qed
qed

lemma comprehension_snoc:
  "comprehension f rows = Inr ys \<Longrightarrow> f r = Inr y \<Longrightarrow> comprehension f (rows @ [r]) = Inr (ys @ [y])"
proof (induction rows arbitrary: ys)
  case Nil
  then show ?case by simp
next
  case (Cons x rows)
  then obtain z zs where "f x = Inr z" "comprehension f rows = Inr zs" "ys = z # zs"
    by (cases "f x"; cases "comprehension f rows") auto
  with Cons show ?case by simp
qed

lemma comprehension_first_column:
  "comprehension (\<lambda>r. py_index r 0) rows = Inr ks \<longleftrightarrow> [] \<notin> set rows \<and> ks = map hd rows"
proof (induction rows arbitrary: ks)
  case Nil
  then show ?case by auto
next
  case (Cons r rows)
  show ?case
  proof (cases r)
    case Nil
    then show ?thesis by (simp add: py_index_first)
  next
    case (Cons c cs)
    show ?thesis
    proof (cases "comprehension (\<lambda>r. py_index r 0) rows")
      case (Inl e)
      with Cons.IH [of "map hd rows"] have "[] \<in> set rows" by auto
      with Inl Cons show ?thesis by (auto simp: py_index_first)
    next
      case (Inr zs)
      with Cons.IH [of zs] have "[] \<notin> set rows" "zs = map hd rows" by auto
      with Inr Cons show ?thesis by (auto simp: py_index_first)
    qed
  qed
qed

lemma comprehension_last_column:
  "comprehension (\<lambda>r. py_index r (- 1)) rows = Inr ks \<longleftrightarrow> [] \<notin> set rows \<and> ks = map last rows"
proof (induction rows arbitrary: ks)
  case Nil
  then show ?case by auto
next
  case (Cons r rows)
  show ?case
  proof (cases "r = []")
    case True
    then show ?thesis by (simp add: py_index_last)
  next
    case False
    show ?thesis
    proof (cases "comprehension (\<lambda>r. py_index r (- 1)) rows")
      case (Inl e)
      with Cons.IH [of "map last rows"] have "[] \<in> set rows" by auto
      with Inl False show ?thesis by (auto simp: py_index_last)
    next
      case (Inr zs)
      with Cons.IH [of zs] have "[] \<notin> set rows" "zs = map last rows" by auto
      with Inr False show ?thesis by (auto simp: py_index_last)
    qed
  qed
qed

text \<open>The selection list of the profiling form never raises: its filter keeps only rows
  that have the sixth column.\<close>

lemma id_trillado_options_total:
  "id_trillado_options rows =
     Inr (map (\<lambda>r. r ! 5) (filter (\<lambda>r. 5 < length r) (drop 1 rows)))"
proof -
  have "comprehension (\<lambda>r. py_index r 5) (filter (\<lambda>r. 5 < length r) (drop 1 rows)) =
        Inr (map (\<lambda>r. r ! 5) (filter (\<lambda>r. 5 < length r) (drop 1 rows)))"
    by (rule comprehension_map) (simp add: py_index_sixth)
  moreover have "\<not> 1 < length rows \<Longrightarrow> drop 1 rows = []"
    by simp
  ultimately show ?thesis
    by (simp add: id_trillado_options_def slice_from1_def)
qed

lemma get_all_values_append:
  "get_all_values fmt (append_row st sheet row) sheet =
     get_all_values fmt st sheet @ [map (cell_text fmt) row]"
  by (simp add: get_all_values_def append_row_def)

lemma get_all_values_other:
  "sheet' \<noteq> sheet \<Longrightarrow> get_all_values fmt (append_row st sheet row) sheet' = get_all_values fmt st sheet'"
  by (simp add: get_all_values_def append_row_def)

subsection \<open>What the three POST handlers return\<close>

text \<open>
  Each handler reads the key column of its worksheet; when that read returns the list
  \<open>ks\<close>, the handler returns, with the store unchanged and the rejection message when
  the identifier is in \<open>ks\<close>, and with one more row and the success message otherwise.
\<close>

lemma submit_form_returns:
  assumes "recebimiento_existing_ids (get_all_values fmt st Recebimiento) = Inr ks"
  shows "submit_form upper fmt st f =
     Inr (if derive_receiving_id upper (recebimiento_form.fecha f) (provedor f) (origen f) (lote_bolsa f)
             \<in> set ks
          then st else append_row st Recebimiento (recebimiento_row upper f),
          \<lparr>template = ''recebimiento.html'',
           msg = Some (if derive_receiving_id upper (recebimiento_form.fecha f) (provedor f) (origen f)
                            (lote_bolsa f) \<in> set ks
                       then cross_mark # lit '' Ya esta registrado! ID: ''
                              @ derive_receiving_id upper (recebimiento_form.fecha f) (provedor f)
                                  (origen f) (lote_bolsa f)
                       else check_mark # lit '' Registered successfully! ID: ''
                              @ derive_receiving_id upper (recebimiento_form.fecha f) (provedor f)
                                  (origen f) (lote_bolsa f)),
           last_submission =
             Some ((''id_recibimiento'',
                    Str (derive_receiving_id upper (recebimiento_form.fecha f) (provedor f) (origen f)
                           (lote_bolsa f))) # recebimiento_defaults f),
           defaults = recebimiento_defaults f, id_options = None\<rparr>)"
  using assms by (simp add: submit_form_def Let_def)

lemma submit_form_raises:
  "recebimiento_existing_ids (get_all_values fmt st Recebimiento) = Inl e
     \<Longrightarrow> submit_form upper fmt st f = Inl e"
  by (simp add: submit_form_def Let_def)

lemma trillado_submit_form_returns:
  assumes "recibimiento_ids (get_all_values fmt st Recebimiento) = Inr ids"
      and "existing_ids_trillado (get_all_values fmt st Trillado) = Inr ks"
  shows "trillado_submit_form fmt st f =
     Inr (if derive_hulling_id (id_recibimiento f) (grano_num f) \<in> set ks
          then st else append_row st Trillado (trillado_row f),
          \<lparr>template = ''trillado.html'',
           msg = Some (if derive_hulling_id (id_recibimiento f) (grano_num f) \<in> set ks
                       then cross_mark # lit '' Ya esta registrado! ID Trillado: ''
                              @ derive_hulling_id (id_recibimiento f) (grano_num f)
                       else check_mark # lit '' Trillado registrado! ID Trillado: ''
                              @ derive_hulling_id (id_recibimiento f) (grano_num f)),
           last_submission =
             Some (trillado_defaults f
                   @ [(''id_trillado'', Str (derive_hulling_id (id_recibimiento f) (grano_num f)))]),
           defaults = trillado_defaults f, id_options = Some ids\<rparr>)"
  using assms by (simp add: trillado_submit_form_def Let_def)

lemma perfilado_submit_form_returns:
  assumes "perda_casca (muestra_pergamino f) (muestra_trillado f) = Inr loss"
      and "existing_ids_perfilado (get_all_values fmt st Perfilado) = Inr ks"
  shows "perfilado_submit_form fmt st f =
     Inr (if id_trillado f \<in> set ks then st else append_row st Perfilado (perfilado_row f loss),
          \<lparr>template = ''perfilado.html'',
           msg = Some (if id_trillado f \<in> set ks
                       then cross_mark # lit '' Ya esta registrado! ID Trillado: '' @ id_trillado f
                       else check_mark # lit '' Perfilado registrado! ID Trillado: '' @ id_trillado f),
           last_submission = Some (perfilado_echo f),
           defaults = perfilado_echo f,
           id_options = Some (profiling_selection_spec (get_all_values fmt st Trillado))\<rparr>)"
  using assms
  by (simp add: perfilado_submit_form_def Let_def id_trillado_options_total
      profiling_selection_spec_def)

text \<open>The key columns, as lists of the worksheet's rows.\<close>

lemma recebimiento_existing_ids_iff:
  "recebimiento_existing_ids rows = Inr ks \<longleftrightarrow> [] \<notin> set rows \<and> ks = map hd rows"
  by (simp add: recebimiento_existing_ids_def comprehension_first_column)

lemma recibimiento_ids_iff:
  "recibimiento_ids rows = Inr ks \<longleftrightarrow> [] \<notin> set (drop 1 rows) \<and> ks = map hd (drop 1 rows)"
  by (auto simp: recibimiento_ids_def slice_from1_def comprehension_first_column)

lemma existing_ids_trillado_iff:
  "existing_ids_trillado rows = Inr ks \<longleftrightarrow> [] \<notin> set (drop 1 rows) \<and> ks = map last (drop 1 rows)"
  by (auto simp: existing_ids_trillado_def slice_from1_def comprehension_last_column)

lemma existing_ids_perfilado_iff:
  "existing_ids_perfilado rows = Inr ks \<longleftrightarrow> [] \<notin> set (drop 1 rows) \<and> ks = map hd (drop 1 rows)"
  by (auto simp: existing_ids_perfilado_def slice_from1_def comprehension_first_column)

subsection \<open>Evaluation of the float operations\<close>

lemma floor_rat_numeral:
  "\<lfloor>numeral a / numeral b :: rat\<rfloor> = numeral a div numeral b"
  using floor_divide_of_int_eq [of "numeral a" "numeral b", where ?'a = rat] by simp

lemmas float_eval = perda_casca_def float_truediv_def float_round_def float_sub_def
  round_to_double_def round_half_even_def floor_log2_def log2_up.simps log2_down.simps
  pow2_def signed_zero_def signed_inf_def float_is_zero_def float_is_inf_def
  float_literal_def Let_def floor_rat_numeral

lemma perda_casca_100_90:
  "perda_casca (Finite 100) (Finite 90) =
     Inr (PyFloat (Finite (900719925474099 / 9007199254740992)))"
  by (simp add: float_eval)

lemma perda_casca_1_2: "perda_casca (Finite 1) (Finite 2) = Inr (PyFloat (Finite (- 1)))"
  by (simp add: float_eval)

lemma example_receiving_id:
  "derive_receiving_id ascii_upper (lit ''2024-03-05'') (lit ''Finca El Roble'') (lit ''Huila'')
     (lit ''B12'') = lit ''20240305FINHUI-B12''"
  by (simp add: derive_receiving_id_def lit_dash py_replace_dash slice_to_def)
     (simp add: lit_def dash_def ascii_upper_def ascii_upper_cp_def)

subsection \<open>The husk loss computation always returns\<close>

text \<open>
  The division cannot raise, because its divisor is not zero, and it returns a float in
  range; rounding a float in range to two decimals stays in range, so
  \<^verbatim>\<open>round\<close> cannot raise OverflowError.
\<close>

lemma pow2_powi: "pow2 k = 2 powi k"
  by (simp add: pow2_def power_int_def power_inverse inverse_eq_divide power_one_over)

lemma pow2_pos [simp]: "0 < pow2 k"
  by (simp add: pow2_powi)

lemma pow2_nonneg [simp]: "0 \<le> pow2 k"
  by (simp add: pow2_powi)

lemma pow2_nonzero [simp]: "pow2 k \<noteq> 0"
  by (simp add: pow2_powi)

lemma pow2_add: "pow2 (a + b) = pow2 a * pow2 b"
  by (simp add: pow2_powi power_int_add)

lemma pow2_mono: "a \<le> b \<Longrightarrow> pow2 a \<le> pow2 b"
  by (simp add: pow2_powi power_int_increasing)

lemma pow2_nat: "pow2 (int n) = 2 ^ n"
  by (simp add: pow2_def)

lemma pow2_double: "2 * pow2 k = pow2 (k + 1)"
  using pow2_add [of k 1] pow2_nat [of 1] by simp

lemma pow2_shift53: "pow2 (k + 53) = pow2 k * 2 ^ 53"
  using pow2_add [of k 53] pow2_nat [of 53] by simp

lemma log2_up_bounds: "1 \<le> a \<Longrightarrow> 2 ^ log2_up a \<le> a \<and> a < 2 * 2 ^ log2_up a"
proof (induction a rule: log2_up.induct)
  case (1 a)
  show ?case
  proof (cases "a < 2")
    case True
    with "1.prems" show ?thesis by (simp add: log2_up.simps [of a])
  next
    case False
    then have "1 \<le> a / 2" by simp
    with "1.IH" False have "2 ^ log2_up (a / 2) \<le> a / 2 \<and> a / 2 < 2 * 2 ^ log2_up (a / 2)"
      by simp
    with False show ?thesis by (simp add: log2_up.simps [of a])
  qed
qed

lemma log2_down_bounds:
  "0 < a \<Longrightarrow> a < 1 \<Longrightarrow> 1 \<le> a * 2 ^ log2_down a \<and> a * 2 ^ log2_down a < 2"
proof (induction a rule: log2_down.induct)
  case (1 a)
  show ?case
  proof (cases "1 \<le> 2 * a")
    case True
    then have "log2_down (2 * a) = 0" by (simp add: log2_down.simps [of "2 * a"])
    with "1.prems" True show ?thesis by (simp add: log2_down.simps [of a])
  next
    case False
    with "1.prems" "1.IH" have "1 \<le> 2 * a * 2 ^ log2_down (2 * a) \<and> 2 * a * 2 ^ log2_down (2 * a) < 2"
      by simp
    with "1.prems" show ?thesis by (simp add: log2_down.simps [of a] mult.assoc mult.left_commute)
  qed
qed

lemma floor_log2_bounds:
  assumes "0 < a"
  shows "pow2 (floor_log2 a) \<le> a \<and> a < 2 * pow2 (floor_log2 a)"
proof (cases "1 \<le> a")
  case True
  with log2_up_bounds [of a] show ?thesis by (simp add: floor_log2_def pow2_nat)
next
  case False
  with assms log2_down_bounds [of a]
  have b: "1 \<le> a * 2 ^ log2_down a" "a * 2 ^ log2_down a < 2" by simp_all
  have p: "pow2 (- int (log2_down a)) = 1 / 2 ^ log2_down a"
    by (simp add: pow2_def)
  from b have "1 / 2 ^ log2_down a \<le> a" "a < 2 * (1 / 2 ^ log2_down a)"
    by (simp_all add: field_simps)
  with False show ?thesis
    by (simp add: floor_log2_def p)
qed

lemma round_half_even_upper: "of_int (round_half_even q) \<le> q + 1 / 2"
  by (simp add: round_half_even_def Let_def) linarith

lemma round_half_even_lower: "q - 1 / 2 \<le> of_int (round_half_even q)"
  by (simp add: round_half_even_def Let_def) linarith

lemma round_half_even_nonneg: "0 \<le> q \<Longrightarrow> 0 \<le> round_half_even q"
  by (simp add: round_half_even_def Let_def)

lemma pow2_bound_pos: "0 \<le> pow2 1024 - pow2 971"
  using pow2_mono [of 971 1024] by simp

lemma round_to_double_range:
  assumes "0 < a" and "round_to_double neg a = Finite v"
  shows "\<bar>v\<bar> \<le> pow2 1024 - pow2 971"
proof -
  define e where "e = max (floor_log2 a - 52) (- 1074)"
  define m where "m = round_half_even (a / pow2 e)"
  show ?thesis
  proof (cases "m = 0")
    case True
    with assms(2) have "v = 0"
      by (auto simp: round_to_double_def Let_def e_def m_def signed_zero_def split: if_splits)
    with pow2_bound_pos show ?thesis by simp
  next
    case m0: False
    with assms(2) have small: "of_int m * pow2 e < pow2 1024"
      and v: "\<bar>v\<bar> = \<bar>of_int m * pow2 e\<bar>"
      by (auto simp: round_to_double_def Let_def e_def m_def signed_zero_def signed_inf_def
          split: if_splits)
    have "0 \<le> a / pow2 e" using assms(1) by (intro divide_nonneg_pos) simp_all
    then have "0 \<le> m" unfolding m_def by (rule round_half_even_nonneg)
    with m0 have m1: "1 \<le> m" by simp
    have "a < 2 * pow2 (floor_log2 a)" using floor_log2_bounds [OF assms(1)] by simp
    also have "\<dots> = pow2 (floor_log2 a + 1)" by (rule pow2_double)
    also have "\<dots> \<le> pow2 (e + 53)" by (rule pow2_mono) (simp add: e_def)
    also have "\<dots> = pow2 e * 2 ^ 53" by (rule pow2_shift53)
    finally have "a / pow2 e < 2 ^ 53" by (simp add: field_simps)
    with round_half_even_upper [of "a / pow2 e"] have "(of_int m :: rat) < 2 ^ 53 + 1 / 2"
      unfolding m_def by linarith
    then have "(of_int m :: rat) < of_int (2 ^ 53 + 1)" by simp
    then have "m < 2 ^ 53 + 1" by (simp only: of_int_less_iff)
    then have m53: "m \<le> 2 ^ 53" by simp
    have "of_int m * pow2 e \<le> pow2 1024 - pow2 971"
    proof (cases "e \<le> 970")
      case True
      from m53 have "(of_int m :: rat) \<le> of_int (2 ^ 53)" by (simp only: of_int_le_iff)
      then have "of_int m * pow2 e \<le> 2 ^ 53 * pow2 e" by (simp add: mult_right_mono)
      also have "\<dots> \<le> 2 ^ 53 * pow2 970" using pow2_mono [OF True] by simp
      also have "\<dots> = pow2 1023" using pow2_shift53 [of 970] by simp
      also have "\<dots> \<le> pow2 1024 - pow2 971"
        using pow2_double [of 1023] pow2_mono [of 971 1023] by simp
      finally show ?thesis .
    next
      case False
      then have e971: "971 \<le> e" by simp
      have "e \<le> 1024"
      proof (rule ccontr)
        assume "\<not> e \<le> 1024"
        then have "pow2 1024 \<le> pow2 e" by (intro pow2_mono) simp
        also have "\<dots> \<le> of_int m * pow2 e" using m1 by simp
        finally show False using small by simp
      qed
      define n where "n = nat (1024 - e)"
      with \<open>e \<le> 1024\<close> have e_n: "1024 = e + int n" by simp
      have split: "pow2 1024 = pow2 e * 2 ^ n"
        by (subst e_n) (simp add: pow2_add pow2_nat)
      with small have "(of_int m :: rat) < 2 ^ n" by (simp add: field_simps)
      then have "(of_int m :: rat) < of_int (2 ^ n)" by simp
      then have "m < 2 ^ n" by (simp only: of_int_less_iff)
      then have "m \<le> 2 ^ n - 1" by simp
      then have "(of_int m :: rat) \<le> of_int (2 ^ n - 1)" by (simp only: of_int_le_iff)
      then have "(of_int m :: rat) \<le> 2 ^ n - 1" by simp
      then have "of_int m * pow2 e \<le> (2 ^ n - 1) * pow2 e"
        by (simp add: mult_right_mono)
      also have "\<dots> = pow2 1024 - pow2 e" by (simp add: split algebra_simps)
      also have "\<dots> \<le> pow2 1024 - pow2 971" using pow2_mono [OF e971] by simp
      finally show ?thesis .
    qed
    moreover have "0 \<le> of_int m * pow2 e" using m1 by (intro mult_nonneg_nonneg) simp_all
    ultimately show ?thesis using v by simp
  qed
qed

lemma round_to_double_no_overflow:
  assumes "0 < a" and "a \<le> pow2 1024 - pow2 971 + 1 / 200"
  shows "\<not> float_is_inf (round_to_double neg a)"
proof -
  define e where "e = max (floor_log2 a - 52) (- 1074)"
  define m where "m = round_half_even (a / pow2 e)"
  have big: "1 / 200 < pow2 971 / 2"
    using pow2_mono [of 1 971] pow2_nat [of 1] by simp
  have "pow2 (floor_log2 a) \<le> a" using floor_log2_bounds [OF assms(1)] by simp
  also have "a < pow2 1024" using assms(2) big pow2_pos [of 971] by linarith
  finally have "floor_log2 a < 1024"
    using pow2_mono [of 1024 "floor_log2 a"] by (cases "floor_log2 a < 1024") auto
  then have "e \<le> 971" by (simp add: e_def)
  then have e: "pow2 e \<le> pow2 971" by (rule pow2_mono)
  have "of_int m \<le> a / pow2 e + 1 / 2" unfolding m_def by (rule round_half_even_upper)
  then have "of_int m * pow2 e \<le> (a / pow2 e + 1 / 2) * pow2 e"
    by (simp add: mult_right_mono)
  also have "\<dots> = a + pow2 e / 2" by (simp add: field_simps)
  also have "\<dots> < pow2 1024" using assms(2) big e by linarith
  finally have "\<not> pow2 1024 \<le> of_int m * pow2 e" by simp
  then show ?thesis
    by (simp add: round_to_double_def Let_def e_def [symmetric] m_def [symmetric]
        float_is_inf_def signed_zero_def signed_inf_def)
qed

lemma float_round_2_returns:
  assumes "\<bar>q\<bar> \<le> pow2 1024 - pow2 971"
  shows "\<exists>y. float_round (Finite q) 2 = Inr y"
proof -
  define k where "k = round_half_even (\<bar>q\<bar> * 10 ^ 2)"
  show ?thesis
  proof (cases "k = 0")
    case True
    then show ?thesis by (simp add: float_round_def Let_def k_def)
  next
    case False
    have "0 \<le> k" unfolding k_def by (rule round_half_even_nonneg) simp
    with False have "(1 :: rat) \<le> of_int k" by simp
    then have pos: "(0 :: rat) < of_int k / 10 ^ 2" by simp
    have "of_int k \<le> \<bar>q\<bar> * 10 ^ 2 + 1 / 2" unfolding k_def by (rule round_half_even_upper)
    then have "of_int k / 10 ^ 2 \<le> \<bar>q\<bar> + 1 / 200" by (simp add: field_simps)
    with assms have "of_int k / 10 ^ 2 \<le> pow2 1024 - pow2 971 + 1 / 200" by simp
    from round_to_double_no_overflow [OF pos this] False show ?thesis
      by (simp add: float_round_def Let_def k_def)
  qed
qed

lemma float_truediv_returns:
  assumes "\<not> float_is_zero p"
  shows "\<exists>x. float_truediv h p = Inr x \<and> (\<forall>q. x = Finite q \<longrightarrow> \<bar>q\<bar> \<le> pow2 1024 - pow2 971)"
proof (cases "h = NaN \<or> p = NaN \<or> float_is_inf h \<or> float_is_inf p \<or> float_is_zero h")
  case True
  with assms pow2_bound_pos show ?thesis
    by (auto simp: float_truediv_def signed_zero_def signed_inf_def)
next
  case False
  with assms obtain a b where hp: "h = Finite a" "p = Finite b" "a \<noteq> 0" "b \<noteq> 0"
    by (cases h; cases p) (auto simp: float_is_zero_def float_is_inf_def)
  then have "0 < \<bar>a / b\<bar>" by simp
  from round_to_double_range [OF this] hp False assms show ?thesis
    by (auto simp: float_truediv_def)
qed

lemma perda_casca_returns: "\<exists>loss. perda_casca p h = Inr loss"
proof (cases "float_is_zero p")
  case True
  then show ?thesis by (simp add: perda_casca_def)
next
  case False
  from float_truediv_returns [OF this, of h] obtain x where
    x: "float_truediv h p = Inr x" "\<forall>q. x = Finite q \<longrightarrow> \<bar>q\<bar> \<le> pow2 1024 - pow2 971"
    by blast
  have "\<exists>y. float_round x 2 = Inr y"
  proof (cases x)
    case (Finite q)
    with x(2) float_round_2_returns [of q] show ?thesis by simp
  qed (simp_all add: float_round_def)
  with False x(1) show ?thesis by (auto simp: perda_casca_def)
qed


section \<open>The receiving identifier\<close>

text \<open>
  Claim C1. For every date string, supplier, origin and lot label and every case
  mapping \<open>upper\<close>, the receiving identifier is the date without its dashes, then the
  upper case of the first three characters of the supplier, the upper case of the first
  three characters of the origin, one hyphen and the upper case of the lot label. It is
  a function of these four strings (the same inputs give the same identifier), no
  operation in it can raise, and a supplier or origin of at most three characters
  contributes the upper case of the whole string. With any \<open>upper\<close> that maps ASCII
  text as Python does, the inputs \<^verbatim>\<open>"2024-03-05"\<close>, \<^verbatim>\<open>"Finca El Roble"\<close>,
  \<^verbatim>\<open>"Huila"\<close>, \<^verbatim>\<open>"B12"\<close> give \<^verbatim>\<open>"20240305FINHUI-B12"\<close>.
\<close>

theorem receiving_id_derivation:
  "derive_receiving_id upper d s orig l =
     filter (\<lambda>c. c \<noteq> dash) d @ upper (take 3 s) @ upper (take 3 orig) @ [dash] @ upper l
   \<and> (length s \<le> 3 \<longrightarrow> upper (slice_to 3 s) = upper s)
   \<and> (length orig \<le> 3 \<longrightarrow> upper (slice_to 3 orig) = upper orig)
   \<and> ((\<forall>t. is_ascii t \<longrightarrow> upper t = ascii_upper t) \<longrightarrow>
        derive_receiving_id upper (lit ''2024-03-05'') (lit ''Finca El Roble'') (lit ''Huila'')
          (lit ''B12'') = lit ''20240305FINHUI-B12'')"
proof (intro conjI impI)
  show "derive_receiving_id upper d s orig l =
     filter (\<lambda>c. c \<noteq> dash) d @ upper (take 3 s) @ upper (take 3 orig) @ [dash] @ upper l"
    by (simp add: derive_receiving_id_def lit_dash py_replace_dash slice_to_def)
next
  assume "length s \<le> 3"
  then show "upper (slice_to 3 s) = upper s" by (simp add: slice_to_def)
next
  assume "length orig \<le> 3"
  then show "upper (slice_to 3 orig) = upper orig" by (simp add: slice_to_def)
next
  assume ascii: "\<forall>t. is_ascii t \<longrightarrow> upper t = ascii_upper t"
  have "is_ascii (lit ''Fin'')" "is_ascii (lit ''Hui'')" "is_ascii (lit ''B12'')"
    by (simp_all add: is_ascii_def lit_def)
  with ascii have "upper (lit ''Fin'') = ascii_upper (lit ''Fin'')"
    "upper (lit ''Hui'') = ascii_upper (lit ''Hui'')"
    "upper (lit ''B12'') = ascii_upper (lit ''B12'')"
    by blast+
  moreover have "slice_to 3 (lit ''Finca El Roble'') = lit ''Fin''"
    "slice_to 3 (lit ''Huila'') = lit ''Hui''"
    by (simp_all add: slice_to_def lit_def)
  moreover have "ascii_upper (lit ''Fin'') = lit ''FIN''" "ascii_upper (lit ''Hui'') = lit ''HUI''"
    "ascii_upper (lit ''B12'') = lit ''B12''"
    by (simp_all add: ascii_upper_def ascii_upper_cp_def lit_def)
  moreover have "filter (\<lambda>c. c \<noteq> dash) (lit ''2024-03-05'') = lit ''20240305''"
    by (simp add: lit_def dash_def)
  ultimately show "derive_receiving_id upper (lit ''2024-03-05'') (lit ''Finca El Roble'')
      (lit ''Huila'') (lit ''B12'') = lit ''20240305FINHUI-B12''"
    by (simp add: derive_receiving_id_def lit_dash py_replace_dash) (simp add: lit_def dash_def)
qed

theorem receiving_id_derivation_witness:
  "derive_receiving_id ascii_upper (lit ''2024-03-05'') (lit ''Fi'') (lit []) (lit ''b12'') =
     lit ''20240305FI-B12''
   \<and> length (lit ''Fi'') \<le> 3 \<and> ascii_upper (slice_to 3 (lit ''Fi'')) = lit ''FI''
   \<and> length (lit []) \<le> 3 \<and> ascii_upper (slice_to 3 (lit [])) = lit []
   \<and> derive_receiving_id ascii_upper (lit ''2024-03-05'') (lit ''Finca El Roble'') (lit ''Huila'')
        (lit ''B12'') = lit ''20240305FINHUI-B12''"
  using receiving_id_derivation
    [of ascii_upper "lit ''2024-03-05''" "lit ''Fi''" "lit []" "lit ''b12''"]
  by (simp add: lit_def dash_def ascii_upper_def ascii_upper_cp_def)

section \<open>The selection list of the profiling form\<close>

text \<open>
  Claim C8. For every content of the Trillado worksheet the GET handler of the profiling
  form returns, and its selection list is, in order, the entry at index 5 of every row
  after the header row that has more than 5 columns. A row after the header with fewer
  than 6 columns does not appear: the list is the one of the worksheet without that
  row. The default of \<^verbatim>\<open>id_trillado\<close> is the first element of the list, and for a
  worksheet with at most one row the list is empty and the default is the empty string.
\<close>

theorem profiling_selection_list:
  assumes "rows = get_all_values fmt st Trillado"
  shows "(\<exists>r. perfilado_form_page fmt st = Inr r
            \<and> id_options r = Some (profiling_selection_spec rows)
            \<and> map_of (defaults r) ''id_trillado'' =
                Some (Str (case profiling_selection_spec rows of [] \<Rightarrow> [] | x # _ \<Rightarrow> x)))
         \<and> (length rows \<le> 1 \<longrightarrow> profiling_selection_spec rows = [])
         \<and> (\<forall>header before short after.
               rows = header # before @ short # after \<and> length short < 6 \<longrightarrow>
               profiling_selection_spec rows = profiling_selection_spec (header # before @ after))"
proof (intro conjI allI impI)
  have "id_trillado_options rows = Inr (profiling_selection_spec rows)"
    by (simp add: id_trillado_options_total profiling_selection_spec_def)
  then show "\<exists>r. perfilado_form_page fmt st = Inr r
            \<and> id_options r = Some (profiling_selection_spec rows)
            \<and> map_of (defaults r) ''id_trillado'' =
                Some (Str (case profiling_selection_spec rows of [] \<Rightarrow> [] | x # _ \<Rightarrow> x))"
    using assms by (simp add: perfilado_form_page_def first_or_empty_def split: list.split)
next
  assume "length rows \<le> 1"
  then show "profiling_selection_spec rows = []"
    by (simp add: profiling_selection_spec_def)
next
  fix header before short after
  assume "rows = header # before @ short # after \<and> length short < 6"
  then show "profiling_selection_spec rows = profiling_selection_spec (header # before @ after)"
    by (simp add: profiling_selection_spec_def)
qed

theorem profiling_selection_list_witness:
  "(\<exists>r. perfilado_form_page (\<lambda>n. lit ''7'')
          ((\<lambda>sheet. [])(Trillado :=
             [map Str [lit ''id'', lit ''fecha'', lit ''grano'', lit ''kg'', lit ''obs'', lit ''id_trillado''],
              [Str (lit ''R1''), Str (lit ''2024-03-05''), Str (lit ''G1''), Num (PyFloat (Finite 7)),
               Str (lit []), Str (lit ''R1-G1'')],
              [Str (lit ''R2''), Str (lit ''2024-03-06'')],
              [Str (lit ''R3''), Str (lit ''2024-03-07''), Str (lit ''G2''), Num (PyFloat (Finite 7)),
               Str (lit []), Str (lit ''R3-G2'')]])) = Inr r
        \<and> id_options r = Some [lit ''R1-G1'', lit ''R3-G2'']
        \<and> map_of (defaults r) ''id_trillado'' = Some (Str (lit ''R1-G1'')))
   \<and> (\<exists>r. perfilado_form_page (\<lambda>n. lit ''7'')
          ((\<lambda>sheet. [])(Trillado :=
             [map Str [lit ''id'', lit ''fecha'', lit ''grano'', lit ''kg'', lit ''obs'', lit ''id_trillado'']])) = Inr r
        \<and> id_options r = Some []
        \<and> map_of (defaults r) ''id_trillado'' = Some (Str (lit [])))"
  using profiling_selection_list [of _ "\<lambda>n. lit ''7''"
      "(\<lambda>sheet. [])(Trillado :=
             [map Str [lit ''id'', lit ''fecha'', lit ''grano'', lit ''kg'', lit ''obs'', lit ''id_trillado''],
              [Str (lit ''R1''), Str (lit ''2024-03-05''), Str (lit ''G1''), Num (PyFloat (Finite 7)),
               Str (lit []), Str (lit ''R1-G1'')],
              [Str (lit ''R2''), Str (lit ''2024-03-06'')],
              [Str (lit ''R3''), Str (lit ''2024-03-07''), Str (lit ''G2''), Num (PyFloat (Finite 7)),
               Str (lit []), Str (lit ''R3-G2'')]])", OF refl]
    profiling_selection_list [of _ "\<lambda>n. lit ''7''"
      "(\<lambda>sheet. [])(Trillado :=
             [map Str [lit ''id'', lit ''fecha'', lit ''grano'', lit ''kg'', lit ''obs'', lit ''id_trillado'']])",
      OF refl]
  by (simp add: get_all_values_def profiling_selection_spec_def)
section \<open>Acceptance and rejection of a submission\<close>

text \<open>
  The three POST handlers on worksheets whose key column can be read, stated on the
  rows that \<^verbatim>\<open>get_all_values\<close> returns. submit_form needs every row to have a
  cell and compares with the first cell of every row; trillado_submit_form needs that
  of the rows after the first one, in both worksheets it reads, and compares with their
  last cells; perfilado_submit_form needs it of the rows after the first one and
  compares with their first cells. Then the handler returns: when the identifier is
  among those cells the store is unchanged, the message is the rejection text followed
  by the identifier and the attempt is the last submission; otherwise the target
  worksheet is the old one followed by the row of the submission, every other worksheet
  is unchanged, and the message is the success text followed by the identifier.
\<close>

lemma submission_accept_or_reject:
  assumes "rid = derive_receiving_id upper (recebimiento_form.fecha rf) (provedor rf) (origen rf)
                   (lote_bolsa rf)"
      and "hid = derive_hulling_id (id_recibimiento tf) (grano_num tf)"
  shows "([] \<notin> set (get_all_values fmt st Recebimiento) \<longrightarrow>
            (\<exists>r. submit_form upper fmt st rf =
                   Inr (if rid \<in> hd ` set (get_all_values fmt st Recebimiento) then st
                        else st(Recebimiento := st Recebimiento @ [recebimiento_row upper rf]), r)
               \<and> msg r = Some (if rid \<in> hd ` set (get_all_values fmt st Recebimiento)
                               then cross_mark # lit '' Ya esta registrado! ID: '' @ rid
                               else check_mark # lit '' Registered successfully! ID: '' @ rid)
               \<and> last_submission r =
                   Some ((''id_recibimiento'', Str rid) # recebimiento_defaults rf)))
       \<and> ([] \<notin> set (drop 1 (get_all_values fmt st Recebimiento))
            \<and> [] \<notin> set (drop 1 (get_all_values fmt st Trillado)) \<longrightarrow>
            (\<exists>r. trillado_submit_form fmt st tf =
                   Inr (if hid \<in> last ` set (drop 1 (get_all_values fmt st Trillado)) then st
                        else st(Trillado := st Trillado @ [trillado_row tf]), r)
               \<and> msg r = Some (if hid \<in> last ` set (drop 1 (get_all_values fmt st Trillado))
                               then cross_mark # lit '' Ya esta registrado! ID Trillado: '' @ hid
                               else check_mark # lit '' Trillado registrado! ID Trillado: '' @ hid)
               \<and> last_submission r =
                   Some (trillado_defaults tf @ [(''id_trillado'', Str hid)])))
       \<and> ([] \<notin> set (drop 1 (get_all_values fmt st Perfilado)) \<longrightarrow>
            (\<exists>loss r. perda_casca (muestra_pergamino pf) (muestra_trillado pf) = Inr loss
               \<and> perfilado_submit_form fmt st pf =
                   Inr (if id_trillado pf \<in> hd ` set (drop 1 (get_all_values fmt st Perfilado))
                        then st
                        else st(Perfilado := st Perfilado @ [perfilado_row pf loss]), r)
               \<and> msg r = Some (if id_trillado pf
                                    \<in> hd ` set (drop 1 (get_all_values fmt st Perfilado))
                               then cross_mark # lit '' Ya esta registrado! ID Trillado: ''
                                      @ id_trillado pf
                               else check_mark # lit '' Perfilado registrado! ID Trillado: ''
                                      @ id_trillado pf)
               \<and> last_submission r = Some (perfilado_echo pf)))"
proof (intro conjI impI)
  assume "[] \<notin> set (get_all_values fmt st Recebimiento)"
  then have "recebimiento_existing_ids (get_all_values fmt st Recebimiento) =
      Inr (map hd (get_all_values fmt st Recebimiento))"
    by (simp add: recebimiento_existing_ids_iff)
  from submit_form_returns [OF this, of upper rf]
  show "\<exists>r. submit_form upper fmt st rf =
                   Inr (if rid \<in> hd ` set (get_all_values fmt st Recebimiento) then st
                        else st(Recebimiento := st Recebimiento @ [recebimiento_row upper rf]), r)
               \<and> msg r = Some (if rid \<in> hd ` set (get_all_values fmt st Recebimiento)
                               then cross_mark # lit '' Ya esta registrado! ID: '' @ rid
                               else check_mark # lit '' Registered successfully! ID: '' @ rid)
               \<and> last_submission r =
                   Some ((''id_recibimiento'', Str rid) # recebimiento_defaults rf)"
    by (simp add: assms append_row_def)
next
  assume "[] \<notin> set (drop 1 (get_all_values fmt st Recebimiento))
            \<and> [] \<notin> set (drop 1 (get_all_values fmt st Trillado))"
  then have "recibimiento_ids (get_all_values fmt st Recebimiento) =
        Inr (map hd (drop 1 (get_all_values fmt st Recebimiento)))"
    and "existing_ids_trillado (get_all_values fmt st Trillado) =
        Inr (map last (drop 1 (get_all_values fmt st Trillado)))"
    by (simp_all add: recibimiento_ids_iff existing_ids_trillado_iff)
  from trillado_submit_form_returns [OF this, of tf]
  show "\<exists>r. trillado_submit_form fmt st tf =
                   Inr (if hid \<in> last ` set (drop 1 (get_all_values fmt st Trillado)) then st
                        else st(Trillado := st Trillado @ [trillado_row tf]), r)
               \<and> msg r = Some (if hid \<in> last ` set (drop 1 (get_all_values fmt st Trillado))
                               then cross_mark # lit '' Ya esta registrado! ID Trillado: '' @ hid
                               else check_mark # lit '' Trillado registrado! ID Trillado: '' @ hid)
               \<and> last_submission r =
                   Some (trillado_defaults tf @ [(''id_trillado'', Str hid)])"
    by (simp add: assms append_row_def)
next
  assume "[] \<notin> set (drop 1 (get_all_values fmt st Perfilado))"
  then have keys: "existing_ids_perfilado (get_all_values fmt st Perfilado) =
      Inr (map hd (drop 1 (get_all_values fmt st Perfilado)))"
    by (simp add: existing_ids_perfilado_iff)
  obtain loss where loss: "perda_casca (muestra_pergamino pf) (muestra_trillado pf) = Inr loss"
    using perda_casca_returns by blast
  from perfilado_submit_form_returns [OF loss keys] loss
  show "\<exists>loss r. perda_casca (muestra_pergamino pf) (muestra_trillado pf) = Inr loss
               \<and> perfilado_submit_form fmt st pf =
                   Inr (if id_trillado pf \<in> hd ` set (drop 1 (get_all_values fmt st Perfilado))
                        then st
                        else st(Perfilado := st Perfilado @ [perfilado_row pf loss]), r)
               \<and> msg r = Some (if id_trillado pf
                                    \<in> hd ` set (drop 1 (get_all_values fmt st Perfilado))
                               then cross_mark # lit '' Ya esta registrado! ID Trillado: ''
                                      @ id_trillado pf
                               else check_mark # lit '' Perfilado registrado! ID Trillado: ''
                                      @ id_trillado pf)
               \<and> last_submission r = Some (perfilado_echo pf)"
    by (simp add: append_row_def)
qed

text \<open>
  Claim C3 says that at each stage a submission whose derived identifier is absent
  from the key column of the target worksheet appends exactly one row and produces the
  success message with the identifier. submit_form does not do so on a Recebimiento
  worksheet that \<^verbatim>\<open>get_all_values\<close> returns as \<^verbatim>\<open>[[]]\<close>: no row holds the
  identifier, and \<^verbatim>\<open>r[0]\<close> at line 112 raises IndexError before the comparison and
  the append, so that no row is appended and neither message nor echo is produced. The
  handlers of the two later stages read the key column from \<^verbatim>\<open>rows[1:]\<close> under
  \<^verbatim>\<open>len(rows) > 1\<close>, and on a target worksheet returned as \<^verbatim>\<open>[[]]\<close> they do as
  the claim says: the row of the submission is the last row afterwards and the success
  message is produced.
\<close>

theorem receiving_submission_on_blank_worksheet:
  "get_all_values fmt (header_only(Recebimiento := [[]])) Recebimiento = [[]]
   \<and> filter (\<lambda>r. derive_receiving_id upper (recebimiento_form.fecha rf) (provedor rf) (origen rf)
                   (lote_bolsa rf) \<in> set r)
        (get_all_values fmt (header_only(Recebimiento := [[]])) Recebimiento) = []
   \<and> submit_form upper fmt (header_only(Recebimiento := [[]])) rf = Inl IndexError
   \<and> (\<exists>st' r. trillado_submit_form fmt (header_only(Trillado := [[]])) tf = Inr (st', r)
         \<and> last (st' Trillado) = trillado_row tf
         \<and> msg r = Some (check_mark # lit '' Trillado registrado! ID Trillado: ''
                           @ derive_hulling_id (id_recibimiento tf) (grano_num tf)))
   \<and> (\<exists>loss st' r. perda_casca (muestra_pergamino pf) (muestra_trillado pf) = Inr loss
         \<and> perfilado_submit_form fmt (header_only(Perfilado := [[]])) pf = Inr (st', r)
         \<and> last (st' Perfilado) = perfilado_row pf loss
         \<and> msg r = Some (check_mark # lit '' Perfilado registrado! ID Trillado: ''
                           @ id_trillado pf))"
proof (intro conjI)
  show "get_all_values fmt (header_only(Recebimiento := [[]])) Recebimiento = [[]]"
    by (simp add: get_all_values_def)
  show "filter (\<lambda>r. derive_receiving_id upper (recebimiento_form.fecha rf) (provedor rf) (origen rf)
                   (lote_bolsa rf) \<in> set r)
        (get_all_values fmt (header_only(Recebimiento := [[]])) Recebimiento) = []"
    by (simp add: get_all_values_def)
  show "submit_form upper fmt (header_only(Recebimiento := [[]])) rf = Inl IndexError"
    by (simp add: submit_form_def recebimiento_existing_ids_def get_all_values_def
        py_index_first Let_def)
  have t_up: "recibimiento_ids (get_all_values fmt (header_only(Trillado := [[]])) Recebimiento) =
      Inr []"
    by (simp add: recibimiento_ids_iff get_all_values_def header_only_def)
  have t_keys: "existing_ids_trillado (get_all_values fmt (header_only(Trillado := [[]])) Trillado) =
      Inr []"
    by (simp add: existing_ids_trillado_iff get_all_values_def)
  from trillado_submit_form_returns [OF t_up t_keys, of tf]
  show "\<exists>st' r. trillado_submit_form fmt (header_only(Trillado := [[]])) tf = Inr (st', r)
         \<and> last (st' Trillado) = trillado_row tf
         \<and> msg r = Some (check_mark # lit '' Trillado registrado! ID Trillado: ''
                           @ derive_hulling_id (id_recibimiento tf) (grano_num tf))"
    by (simp add: append_row_def)
  have p_keys: "existing_ids_perfilado
      (get_all_values fmt (header_only(Perfilado := [[]])) Perfilado) = Inr []"
    by (simp add: existing_ids_perfilado_iff get_all_values_def)
  obtain loss where loss: "perda_casca (muestra_pergamino pf) (muestra_trillado pf) = Inr loss"
    using perda_casca_returns by blast
  from perfilado_submit_form_returns [OF loss p_keys] loss
  show "\<exists>loss st' r. perda_casca (muestra_pergamino pf) (muestra_trillado pf) = Inr loss
         \<and> perfilado_submit_form fmt (header_only(Perfilado := [[]])) pf = Inr (st', r)
         \<and> last (st' Perfilado) = perfilado_row pf loss
         \<and> msg r = Some (check_mark # lit '' Perfilado registrado! ID Trillado: ''
                           @ id_trillado pf)"
    by (simp add: append_row_def)
qed

section \<open>Submitting the same receiving form twice\<close>

text \<open>
  On a Recebimiento worksheet of which every row has a cell and no row has the
  identifier as its first cell, the first submission is accepted and appends its row; a
  second submission with the same date, supplier, origin and lot (whatever its other
  fields) is rejected as a duplicate and leaves the store as the first one left it; and
  the worksheet then holds exactly one row whose first cell is that identifier.
\<close>

lemma receiving_resubmission_rejected:
  assumes rid: "rid = derive_receiving_id upper (recebimiento_form.fecha f) (provedor f) (origen f)
                        (lote_bolsa f)"
      and readable: "[] \<notin> set (get_all_values fmt st Recebimiento)"
      and absent: "rid \<notin> hd ` set (get_all_values fmt st Recebimiento)"
      and same: "recebimiento_form.fecha f' = recebimiento_form.fecha f \<and> provedor f' = provedor f
                   \<and> origen f' = origen f \<and> lote_bolsa f' = lote_bolsa f"
  shows "\<exists>st1 r1 r2.
           submit_form upper fmt st f = Inr (st1, r1)
         \<and> msg r1 = Some (check_mark # lit '' Registered successfully! ID: '' @ rid)
         \<and> st1 Recebimiento = st Recebimiento @ [recebimiento_row upper f]
         \<and> submit_form upper fmt st1 f' = Inr (st1, r2)
         \<and> msg r2 = Some (cross_mark # lit '' Ya esta registrado! ID: '' @ rid)
         \<and> length (filter (\<lambda>r. py_index r 0 = Inr rid) (get_all_values fmt st1 Recebimiento)) = 1"
proof -
  let ?row = "recebimiento_row upper f"
  let ?st1 = "append_row st Recebimiento ?row"
  let ?rows = "get_all_values fmt st Recebimiento"
  let ?ks = "map hd ?rows"
  from readable have keys: "recebimiento_existing_ids ?rows = Inr ?ks"
    by (simp add: recebimiento_existing_ids_iff)
  have first: "py_index (map (cell_text fmt) ?row) 0 = Inr rid"
    by (simp add: py_index_first recebimiento_row_def rid)
  have rows1: "get_all_values fmt ?st1 Recebimiento = ?rows @ [map (cell_text fmt) ?row]"
    by (rule get_all_values_append)
  from keys first have keys1:
    "recebimiento_existing_ids (get_all_values fmt ?st1 Recebimiento) = Inr (?ks @ [rid])"
    unfolding rows1 recebimiento_existing_ids_def by (rule comprehension_snoc)
  have rid': "derive_receiving_id upper (recebimiento_form.fecha f') (provedor f') (origen f')
                (lote_bolsa f') = rid"
    using same rid by simp
  have "filter (\<lambda>r. py_index r 0 = Inr rid) ?rows = []"
  proof -
    have "py_index r 0 \<noteq> Inr rid" if "r \<in> set ?rows" for r
    proof -
      from that readable have "r \<noteq> []" by auto
      then obtain c cs where r: "r = c # cs" by (cases r) auto
      with that have "c \<in> hd ` set ?rows" by force
      with absent have "c \<noteq> rid" by auto
      with r show ?thesis by (simp add: py_index_first)
    qed
    then show ?thesis by (simp add: filter_empty_conv)
  qed
  with first have count:
    "length (filter (\<lambda>r. py_index r 0 = Inr rid) (get_all_values fmt ?st1 Recebimiento)) = 1"
    by (simp add: rows1)
  from submit_form_returns [OF keys, of upper f] absent
  have one: "\<exists>r1. submit_form upper fmt st f = Inr (?st1, r1)
      \<and> msg r1 = Some (check_mark # lit '' Registered successfully! ID: '' @ rid)"
    by (simp add: rid)
  from submit_form_returns [OF keys1, of upper f']
  have two: "\<exists>r2. submit_form upper fmt ?st1 f' = Inr (?st1, r2)
      \<and> msg r2 = Some (cross_mark # lit '' Ya esta registrado! ID: '' @ rid)"
    by (simp add: rid')
  have "?st1 Recebimiento = st Recebimiento @ [?row]"
    by (simp add: append_row_def)
  with one two count show ?thesis by blast
qed

text \<open>
  Claim C6 starts from any state of the Recebimiento worksheet in which the derived
  identifier is absent. On a worksheet that \<^verbatim>\<open>get_all_values\<close> returns as
  \<^verbatim>\<open>[[]]\<close> no row has the identifier, yet the first submission is not accepted:
  \<^verbatim>\<open>r[0]\<close> at line 112 raises IndexError before the append. The worksheet is then
  as it was, so that the second submission raises in the same way instead of being
  rejected as a duplicate, and no row has the identifier, where the claim has exactly
  one. From a worksheet that holds a header row the two submissions go as the claim
  says.
\<close>

theorem receiving_resubmission_on_blank_worksheet:
  "submit_form upper fmt (header_only(Recebimiento := [[]])) f = Inl IndexError
   \<and> submit_form upper fmt (header_only(Recebimiento := [[]])) f' = Inl IndexError
   \<and> length (filter (\<lambda>r. py_index r 0 =
                 Inr (derive_receiving_id upper (recebimiento_form.fecha f) (provedor f) (origen f)
                        (lote_bolsa f)))
               (get_all_values fmt (header_only(Recebimiento := [[]])) Recebimiento)) = 0
   \<and> (\<exists>st1 r1 r2.
        submit_form ascii_upper example_fmt header_only example_recebimiento = Inr (st1, r1)
      \<and> msg r1 = Some (check_mark # lit '' Registered successfully! ID: 20240305FINHUI-B12'')
      \<and> st1 Recebimiento = [[Str (lit ''id'')], recebimiento_row ascii_upper example_recebimiento]
      \<and> submit_form ascii_upper example_fmt st1
           (example_recebimiento\<lparr>ciudad := lit ''Pitalito'', humedad := Finite 12\<rparr>) = Inr (st1, r2)
      \<and> msg r2 = Some (cross_mark # lit '' Ya esta registrado! ID: 20240305FINHUI-B12'')
      \<and> length (filter (\<lambda>r. py_index r 0 = Inr (lit ''20240305FINHUI-B12''))
                 (get_all_values example_fmt st1 Recebimiento)) = 1)"
proof -
  have raises: "submit_form upper fmt (header_only(Recebimiento := [[]])) g = Inl IndexError"
    for g
    by (simp add: submit_form_def recebimiento_existing_ids_def get_all_values_def
        py_index_first Let_def)
  have none: "length (filter (\<lambda>r. py_index r 0 =
                 Inr (derive_receiving_id upper (recebimiento_form.fecha f) (provedor f) (origen f)
                        (lote_bolsa f)))
               (get_all_values fmt (header_only(Recebimiento := [[]])) Recebimiento)) = 0"
    by (simp add: get_all_values_def py_index_first)
  have rid: "lit ''20240305FINHUI-B12'' =
      derive_receiving_id ascii_upper (recebimiento_form.fecha example_recebimiento)
        (provedor example_recebimiento) (origen example_recebimiento)
        (lote_bolsa example_recebimiento)"
    by (simp add: example_recebimiento_def example_receiving_id)
  have readable: "[] \<notin> set (get_all_values example_fmt header_only Recebimiento)"
    by (simp add: get_all_values_def header_only_def)
  have absent: "lit ''20240305FINHUI-B12''
      \<notin> hd ` set (get_all_values example_fmt header_only Recebimiento)"
    by (simp add: get_all_values_def header_only_def lit_def)
  have same: "recebimiento_form.fecha (example_recebimiento\<lparr>ciudad := lit ''Pitalito'', humedad := Finite 12\<rparr>)
        = recebimiento_form.fecha example_recebimiento
      \<and> provedor (example_recebimiento\<lparr>ciudad := lit ''Pitalito'', humedad := Finite 12\<rparr>)
        = provedor example_recebimiento
      \<and> origen (example_recebimiento\<lparr>ciudad := lit ''Pitalito'', humedad := Finite 12\<rparr>)
        = origen example_recebimiento
      \<and> lote_bolsa (example_recebimiento\<lparr>ciudad := lit ''Pitalito'', humedad := Finite 12\<rparr>)
        = lote_bolsa example_recebimiento"
    by simp
  from receiving_resubmission_rejected [OF rid readable absent same]
  have "\<exists>st1 r1 r2.
        submit_form ascii_upper example_fmt header_only example_recebimiento = Inr (st1, r1)
      \<and> msg r1 = Some (check_mark # lit '' Registered successfully! ID: 20240305FINHUI-B12'')
      \<and> st1 Recebimiento = [[Str (lit ''id'')], recebimiento_row ascii_upper example_recebimiento]
      \<and> submit_form ascii_upper example_fmt st1
           (example_recebimiento\<lparr>ciudad := lit ''Pitalito'', humedad := Finite 12\<rparr>) = Inr (st1, r2)
      \<and> msg r2 = Some (cross_mark # lit '' Ya esta registrado! ID: 20240305FINHUI-B12'')
      \<and> length (filter (\<lambda>r. py_index r 0 = Inr (lit ''20240305FINHUI-B12''))
                 (get_all_values example_fmt st1 Recebimiento)) = 1"
    by (simp add: header_only_def lit_def)
  with raises [of f] raises [of f'] none show ?thesis by blast
qed


section \<open>The profiling identifier\<close>



section \<open>No referential check against the upstream worksheet\<close>

text \<open>
  Claim C9. What a Hulling or Profiling submission does to its target worksheet, and the
  message it produces, do not depend on the content of the upstream worksheet: replacing
  the upstream worksheet (Recebimiento for Hulling, Trillado for Profiling) by any other
  content, with or without the chosen upstream identifier in it, gives the same outcome.
  For Profiling this holds for all contents; for Hulling for all contents from which the
  selection list can be built. When the key column of the target worksheet is read as
  \<open>ks\<close>, the row is appended exactly when the derived identifier is not in \<open>ks\<close>.
\<close>

theorem acceptance_ignores_upstream:
  "(recibimiento_ids (map (map (cell_text fmt)) ua) = Inr idsa
      \<and> recibimiento_ids (map (map (cell_text fmt)) ub) = Inr idsb \<longrightarrow>
      outcome Trillado (trillado_submit_form fmt (st(Recebimiento := ua)) tf) =
      outcome Trillado (trillado_submit_form fmt (st(Recebimiento := ub)) tf))
   \<and> outcome Perfilado (perfilado_submit_form fmt (st(Trillado := ua)) pf) =
     outcome Perfilado (perfilado_submit_form fmt (st(Trillado := ub)) pf)
   \<and> (recibimiento_ids (map (map (cell_text fmt)) ua) = Inr idsa
        \<and> existing_ids_trillado (get_all_values fmt st Trillado) = Inr ks \<longrightarrow>
        (\<exists>m. outcome Trillado (trillado_submit_form fmt (st(Recebimiento := ua)) tf) =
           Inr (if derive_hulling_id (id_recibimiento tf) (grano_num tf) \<in> set ks
                then st Trillado else st Trillado @ [trillado_row tf], m)))
   \<and> (existing_ids_perfilado (get_all_values fmt st Perfilado) = Inr ks \<longrightarrow>
        (\<exists>loss m. perda_casca (muestra_pergamino pf) (muestra_trillado pf) = Inr loss
           \<and> outcome Perfilado (perfilado_submit_form fmt (st(Trillado := ua)) pf) =
           Inr (if id_trillado pf \<in> set ks
                then st Perfilado else st Perfilado @ [perfilado_row pf loss], m)))"
proof (intro conjI impI)
  assume "recibimiento_ids (map (map (cell_text fmt)) ua) = Inr idsa
      \<and> recibimiento_ids (map (map (cell_text fmt)) ub) = Inr idsb"
  then show "outcome Trillado (trillado_submit_form fmt (st(Recebimiento := ua)) tf) =
      outcome Trillado (trillado_submit_form fmt (st(Recebimiento := ub)) tf)"
    by (cases "existing_ids_trillado (map (map (cell_text fmt)) (st Trillado))")
      (simp_all add: outcome_def trillado_submit_form_def get_all_values_def append_row_def Let_def)
next
  show "outcome Perfilado (perfilado_submit_form fmt (st(Trillado := ua)) pf) =
     outcome Perfilado (perfilado_submit_form fmt (st(Trillado := ub)) pf)"
    by (cases "perda_casca (muestra_pergamino pf) (muestra_trillado pf)";
        cases "existing_ids_perfilado (map (map (cell_text fmt)) (st Perfilado))")
      (simp_all add: outcome_def perfilado_submit_form_def get_all_values_def append_row_def
        Let_def id_trillado_options_total)
next
  assume "recibimiento_ids (map (map (cell_text fmt)) ua) = Inr idsa
        \<and> existing_ids_trillado (get_all_values fmt st Trillado) = Inr ks"
  then show "\<exists>m. outcome Trillado (trillado_submit_form fmt (st(Recebimiento := ua)) tf) =
           Inr (if derive_hulling_id (id_recibimiento tf) (grano_num tf) \<in> set ks
                then st Trillado else st Trillado @ [trillado_row tf], m)"
    by (simp add: outcome_def trillado_submit_form_def get_all_values_def append_row_def Let_def)
next
  assume keys: "existing_ids_perfilado (get_all_values fmt st Perfilado) = Inr ks"
  obtain loss where "perda_casca (muestra_pergamino pf) (muestra_trillado pf) = Inr loss"
    using perda_casca_returns by blast
  with keys show "\<exists>loss m. perda_casca (muestra_pergamino pf) (muestra_trillado pf) = Inr loss
           \<and> outcome Perfilado (perfilado_submit_form fmt (st(Trillado := ua)) pf) =
           Inr (if id_trillado pf \<in> set ks
                then st Perfilado else st Perfilado @ [perfilado_row pf loss], m)"
    by (simp add: outcome_def perfilado_submit_form_def get_all_values_def append_row_def
        Let_def id_trillado_options_total)
qed

theorem acceptance_ignores_upstream_witness:
  "outcome Trillado (trillado_submit_form example_fmt
      (header_only(Recebimiento := [[Str (lit ''id'')], [Str (lit ''20240305FINHUI-B12'')]]))
      example_trillado) =
   outcome Trillado (trillado_submit_form example_fmt
      (header_only(Recebimiento := [[Str (lit ''id'')]])) example_trillado)
   \<and> (\<exists>m. outcome Trillado (trillado_submit_form example_fmt
              (header_only(Recebimiento := [[Str (lit ''id'')]])) example_trillado) =
            Inr ([[Str (lit ''id'')], trillado_row example_trillado], m))
   \<and> (\<exists>m. outcome Perfilado (perfilado_submit_form example_fmt
              (header_only(Trillado := [[Str (lit ''id'')]])) example_perfilado) =
            Inr ([[Str (lit ''id'')],
                  perfilado_row example_perfilado
                    (PyFloat (Finite (900719925474099 / 9007199254740992)))], m))"
proof -
  have up1: "recibimiento_ids (map (map (cell_text example_fmt))
      [[Str (lit ''id'')], [Str (lit ''20240305FINHUI-B12'')]]) = Inr [lit ''20240305FINHUI-B12'']"
    by (simp add: recibimiento_ids_iff)
  have up2: "recibimiento_ids (map (map (cell_text example_fmt)) [[Str (lit ''id'')]]) = Inr []"
    by (simp add: recibimiento_ids_iff)
  have t_keys: "existing_ids_trillado (get_all_values example_fmt header_only Trillado) = Inr []"
    by (simp add: existing_ids_trillado_iff get_all_values_def header_only_def)
  have p_loss: "perda_casca (muestra_pergamino example_perfilado)
      (muestra_trillado example_perfilado) =
        Inr (PyFloat (Finite (900719925474099 / 9007199254740992)))"
    by (simp add: example_perfilado_def perda_casca_100_90)
  have p_keys: "existing_ids_perfilado (get_all_values example_fmt header_only Perfilado) = Inr []"
    by (simp add: existing_ids_perfilado_iff get_all_values_def header_only_def)
  note a = acceptance_ignores_upstream [where fmt = example_fmt and st = header_only
      and ua = "[[Str (lit ''id'')], [Str (lit ''20240305FINHUI-B12'')]]"
      and ub = "[[Str (lit ''id'')]]" and tf = example_trillado
      and idsa = "[lit ''20240305FINHUI-B12'']" and idsb = "[]"]
  note b = acceptance_ignores_upstream [where fmt = example_fmt and st = header_only
      and ua = "[[Str (lit ''id'')]]" and tf = example_trillado and pf = example_perfilado
      and idsa = "[]" and ks = "[]"]
  from a [THEN conjunct1, THEN mp, OF conjI, OF up1 up2]
    b [THEN conjunct2, THEN conjunct2, THEN conjunct1, THEN mp, OF conjI, OF up2 t_keys]
    b [THEN conjunct2, THEN conjunct2, THEN conjunct2, THEN mp, OF p_keys] p_loss
  show ?thesis
    by (auto simp: header_only_def)
qed

section \<open>The husk loss is stored as computed\<close>

text \<open>
  Claim C10. The husk loss is not clamped to the range from 0 to 1. With a parchment
  sample of 1 (not zero) and a hulled sample of 2 (greater) it is the float \<open>-1.0\<close>, a
  negative number. The computation always returns a value \<open>loss\<close>, and an accepted
  profiling submission appends a row whose cell at index 7 is that value, unchanged.
\<close>

theorem husk_loss_not_clamped:
  "\<not> float_is_zero (Finite 1) \<and> (1 :: rat) < 2
   \<and> perda_casca (Finite 1) (Finite 2) = Inr (PyFloat (Finite (- 1))) \<and> (- 1 :: rat) < 0
   \<and> (existing_ids_perfilado (get_all_values fmt st Perfilado) = Inr ks
        \<and> id_trillado pf \<notin> set ks \<longrightarrow>
        (\<exists>loss st' r. perda_casca (muestra_pergamino pf) (muestra_trillado pf) = Inr loss
           \<and> perfilado_submit_form fmt st pf = Inr (st', r)
           \<and> st' Perfilado = st Perfilado @ [perfilado_row pf loss]
           \<and> last (st' Perfilado) ! 7 = Num loss))"
proof (intro conjI impI)
  show "\<not> float_is_zero (Finite 1)" by (simp add: float_is_zero_def)
  show "(1 :: rat) < 2" by simp
  show "perda_casca (Finite 1) (Finite 2) = Inr (PyFloat (Finite (- 1)))"
    by (rule perda_casca_1_2)
  show "(- 1 :: rat) < 0" by simp
next
  assume "existing_ids_perfilado (get_all_values fmt st Perfilado) = Inr ks
        \<and> id_trillado pf \<notin> set ks"
  then have keys: "existing_ids_perfilado (get_all_values fmt st Perfilado) = Inr ks"
    and absent: "id_trillado pf \<notin> set ks"
    by simp_all
  obtain loss where loss: "perda_casca (muestra_pergamino pf) (muestra_trillado pf) = Inr loss"
    using perda_casca_returns by blast
  have "perfilado_row pf loss ! 7 = Num loss"
    by (simp add: perfilado_row_def)
  with perfilado_submit_form_returns [OF loss keys] absent loss
  show "\<exists>loss st' r. perda_casca (muestra_pergamino pf) (muestra_trillado pf) = Inr loss
           \<and> perfilado_submit_form fmt st pf = Inr (st', r)
           \<and> st' Perfilado = st Perfilado @ [perfilado_row pf loss]
           \<and> last (st' Perfilado) ! 7 = Num loss"
    by (simp add: append_row_def)
qed

theorem husk_loss_not_clamped_witness:
  "\<exists>st' r. perfilado_submit_form example_fmt header_only
        (example_perfilado\<lparr>muestra_pergamino := Finite 1, muestra_trillado := Finite 2\<rparr>) =
          Inr (st', r)
     \<and> length (st' Perfilado) = 2
     \<and> last (st' Perfilado) ! 7 = Num (PyFloat (Finite (- 1)))"
proof -
  let ?pf = "example_perfilado\<lparr>muestra_pergamino := Finite 1, muestra_trillado := Finite 2\<rparr>"
  have loss: "perda_casca (muestra_pergamino ?pf) (muestra_trillado ?pf) =
      Inr (PyFloat (Finite (- 1)))"
    by (simp add: perda_casca_1_2)
  have keys: "existing_ids_perfilado (get_all_values example_fmt header_only Perfilado) = Inr []"
    by (simp add: existing_ids_perfilado_iff get_all_values_def header_only_def)
  have absent: "id_trillado ?pf \<notin> set []"
    by simp
  from husk_loss_not_clamped [where pf = ?pf and fmt = example_fmt and st = header_only
      and ks = "[]", THEN conjunct2, THEN conjunct2,
      THEN conjunct2, THEN conjunct2, THEN mp, OF conjI, OF keys absent] loss
  show ?thesis
    by (auto simp: header_only_def)
qed

section \<open>The husk loss fraction\<close>

text \<open>
  Claim C4 says that the husk loss of the samples 100 and 90 equals 0.1. On floats it
  does not: \<^verbatim>\<open>90/100\<close> is the float 0.9, which two decimals leave as it is, and
  \<^verbatim>\<open>1 - 0.9\<close> is the float \<^verbatim>\<open>0.09999999999999998\<close>. That is neither the float
  that the literal \<^verbatim>\<open>0.1\<close> denotes nor the rational number one tenth.
\<close>

theorem husk_loss_100_90_is_not_a_tenth:
  "perda_casca (Finite 100) (Finite 90) \<noteq> Inr (PyFloat (float_literal (1 / 10)))
   \<and> perda_casca (Finite 100) (Finite 90) \<noteq> Inr (PyFloat (Finite (1 / 10)))"
  by (simp add: perda_casca_100_90) (simp add: float_eval)

text \<open>
  Claim C4, amended. For every pair of floats the computation returns a value and
  raises nothing. When the parchment sample equals 0 (either zero of the floats) the
  husk loss is the integer 0, also when both samples are 0. Otherwise it is 1 minus the ratio of the hulled to the
  parchment sample rounded to 2 decimals, the rounding applied to the ratio and the
  subtraction to the rounded ratio, each step a float operation. For the samples 100 and
  90 the result is the float \<open>900719925474099 / 2\<^sup>5\<^sup>3\<close>, which lies \<open>2\<^sup>-\<^sup>5\<^sup>5\<close> below the
  float 0.1; rounding after the subtraction instead would give the float 0.1.
\<close>

theorem husk_loss_fraction_amended:
  "(\<exists>loss. perda_casca p h = Inr loss)
   \<and> (float_is_zero p \<longrightarrow> perda_casca p h = Inr (PyInt 0))
   \<and> (\<not> float_is_zero p \<longrightarrow>
        perda_casca p h =
          bind_err (float_truediv h p) (\<lambda>ratio.
          bind_err (float_round ratio 2) (\<lambda>rounded.
          Inr (PyFloat (float_sub (Finite 1) rounded)))))
   \<and> perda_casca (Finite 0) (Finite 0) = Inr (PyInt 0)
   \<and> perda_casca (Finite 100) (Finite 90) =
        Inr (PyFloat (Finite (900719925474099 / 9007199254740992)))
   \<and> float_val (float_literal (1 / 10)) - 900719925474099 / 9007199254740992 = 1 / 2 ^ 55
   \<and> bind_err (float_truediv (Finite 90) (Finite 100)) (\<lambda>ratio.
        float_round (float_sub (Finite 1) ratio) 2) = Inr (float_literal (1 / 10))"
proof (intro conjI impI)
  show "\<exists>loss. perda_casca p h = Inr loss" by (rule perda_casca_returns)
next
  assume "float_is_zero p"
  then show "perda_casca p h = Inr (PyInt 0)" by (simp add: perda_casca_def)
next
  assume "\<not> float_is_zero p"
  then show "perda_casca p h =
          bind_err (float_truediv h p) (\<lambda>ratio.
          bind_err (float_round ratio 2) (\<lambda>rounded.
          Inr (PyFloat (float_sub (Finite 1) rounded))))"
    by (simp add: perda_casca_def)
next
  show "perda_casca (Finite 0) (Finite 0) = Inr (PyInt 0)"
    by (simp add: perda_casca_def float_is_zero_def)
next
  show "perda_casca (Finite 100) (Finite 90) =
        Inr (PyFloat (Finite (900719925474099 / 9007199254740992)))"
    by (rule perda_casca_100_90)
next
  show "float_val (float_literal (1 / 10)) - 900719925474099 / 9007199254740992 = 1 / 2 ^ 55"
    by (simp add: float_eval)
next
  show "bind_err (float_truediv (Finite 90) (Finite 100)) (\<lambda>ratio.
        float_round (float_sub (Finite 1) ratio) 2) = Inr (float_literal (1 / 10))"
    by (simp add: float_eval)
qed

theorem husk_loss_fraction_amended_witness:
  "float_is_zero NegZero \<and> perda_casca NegZero (Finite 5) = Inr (PyInt 0)
   \<and> \<not> float_is_zero (Finite 3)
   \<and> perda_casca (Finite 3) (Finite 1) =
        Inr (PyFloat (Finite (377176468792279 / 562949953421312)))"
proof -
  have z: "float_is_zero NegZero" and nz: "\<not> float_is_zero (Finite 3)"
    by (simp_all add: float_is_zero_def)
  have "bind_err (float_truediv (Finite 1) (Finite 3)) (\<lambda>ratio.
          bind_err (float_round ratio 2) (\<lambda>rounded.
          Inr (PyFloat (float_sub (Finite 1) rounded)))) =
        Inr (PyFloat (Finite (377176468792279 / 562949953421312)))"
    by (simp add: float_eval)
  with husk_loss_fraction_amended [of NegZero "Finite 5", THEN conjunct2, THEN conjunct1,
      THEN mp, OF z]
    husk_loss_fraction_amended [of "Finite 3" "Finite 1", THEN conjunct2, THEN conjunct2,
      THEN conjunct1, THEN mp, OF nz] z nz
  show ?thesis by simp
qed

section \<open>Where the duplicate checks differ from their description\<close>

text \<open>
  Claim C2 says that at every stage the duplicate check skips row 0 of the target
  worksheet, so that a worksheet of fewer than two rows reports no duplicate. The checks
  of the Trillado and Perfilado stages do so; the check of submit_form does not: it
  collects column 0 of every row, row 0 included. Evaluated on a Recebimiento worksheet
  that holds a single row, the one that a first submission appended to an empty
  worksheet: the same submission is reported as a duplicate, although the worksheet has
  fewer than two rows. On worksheets of one row the two later checks collect nothing.
\<close>

theorem receiving_duplicate_check_reads_row_0:
  "(\<exists>r. submit_form ascii_upper example_fmt (\<lambda>sheet. []) example_recebimiento =
          Inr ((\<lambda>sheet. [])(Recebimiento := [recebimiento_row ascii_upper example_recebimiento]), r))
   \<and> length (((\<lambda>sheet. [])(Recebimiento := [recebimiento_row ascii_upper example_recebimiento]))
        Recebimiento) < 2
   \<and> (\<exists>r. submit_form ascii_upper example_fmt
            ((\<lambda>sheet. [])(Recebimiento := [recebimiento_row ascii_upper example_recebimiento]))
            example_recebimiento =
          Inr ((\<lambda>sheet. [])(Recebimiento := [recebimiento_row ascii_upper example_recebimiento]), r)
        \<and> msg r = Some (cross_mark # lit '' Ya esta registrado! ID: 20240305FINHUI-B12''))
   \<and> recebimiento_existing_ids [[lit ''20240305FINHUI-B12'']] = Inr [lit ''20240305FINHUI-B12'']
   \<and> existing_ids_trillado [[lit ''20240305FINHUI-B12-G1'']] = Inr []
   \<and> existing_ids_perfilado [[lit ''20240305FINHUI-B12-G1'']] = Inr []"
proof -
  let ?row = "recebimiento_row ascii_upper example_recebimiento"
  let ?st = "(\<lambda>sheet. [])(Recebimiento := [?row]) :: store"
  have rid: "derive_receiving_id ascii_upper (recebimiento_form.fecha example_recebimiento)
      (provedor example_recebimiento) (origen example_recebimiento)
      (lote_bolsa example_recebimiento) = lit ''20240305FINHUI-B12''"
    by (simp add: example_recebimiento_def example_receiving_id)
  have empty: "recebimiento_existing_ids (get_all_values example_fmt (\<lambda>sheet. []) Recebimiento) =
      Inr []"
    by (simp add: recebimiento_existing_ids_iff get_all_values_def)
  have one: "recebimiento_existing_ids (get_all_values example_fmt ?st Recebimiento) =
      Inr [lit ''20240305FINHUI-B12'']"
    by (simp add: recebimiento_existing_ids_iff get_all_values_def recebimiento_row_def rid)
  have "\<exists>r. submit_form ascii_upper example_fmt (\<lambda>sheet. []) example_recebimiento = Inr (?st, r)"
    using submit_form_returns [OF empty, of ascii_upper example_recebimiento]
    by (simp add: append_row_def)
  moreover have "\<exists>r. submit_form ascii_upper example_fmt ?st example_recebimiento = Inr (?st, r)
        \<and> msg r = Some (cross_mark # lit '' Ya esta registrado! ID: 20240305FINHUI-B12'')"
    using submit_form_returns [OF one, of ascii_upper example_recebimiento]
    by (simp add: rid) (simp add: lit_def)
  moreover have "recebimiento_existing_ids [[lit ''20240305FINHUI-B12'']] =
      Inr [lit ''20240305FINHUI-B12'']"
    by (simp add: recebimiento_existing_ids_iff)
  moreover have "existing_ids_trillado [[lit ''20240305FINHUI-B12-G1'']] = Inr []"
    by (simp add: existing_ids_trillado_iff)
  moreover have "existing_ids_perfilado [[lit ''20240305FINHUI-B12-G1'']] = Inr []"
    by (simp add: existing_ids_perfilado_iff)
  ultimately show ?thesis by simp
qed

text \<open>
  Claim C5 says that wherever a key column is extracted, a row too short to have the
  key position is skipped. Only the selection list of the profiling form filters such
  rows (by \<^verbatim>\<open>len(r) > 5\<close>). The other extractions index every row they read: a row
  without any cell makes \<^verbatim>\<open>r[0]\<close> and \<^verbatim>\<open>r[-1]\<close> raise IndexError, the handler does
  not return and nothing is appended. Evaluated for the duplicate check of submit_form
  on a worksheet read as \<^verbatim>\<open>[[]]\<close>, for the selection list of the hulling form and of
  trillado_submit_form, and for the duplicate checks of the two later stages, on
  worksheets with an empty row after the header.
\<close>

theorem short_key_row_raises:
  "submit_form upper fmt ((\<lambda>sheet. [])(Recebimiento := [[]])) rf = Inl IndexError
   \<and> trillado_form_page today fmt ((\<lambda>sheet. [])(Recebimiento := [[Str (lit ''id'')], []])) =
       Inl IndexError
   \<and> trillado_submit_form fmt ((\<lambda>sheet. [])(Recebimiento := [[Str (lit ''id'')], []])) tf =
       Inl IndexError
   \<and> trillado_submit_form fmt ((\<lambda>sheet. [])(Trillado := [[Str (lit ''id'')], []])) tf =
       Inl IndexError
   \<and> perfilado_submit_form fmt ((\<lambda>sheet. [])(Perfilado := [[Str (lit ''id'')], []]))
       example_perfilado = Inl IndexError"
proof (intro conjI)
  show "submit_form upper fmt ((\<lambda>sheet. [])(Recebimiento := [[]])) rf = Inl IndexError"
    by (simp add: submit_form_def recebimiento_existing_ids_def get_all_values_def
        py_index_first Let_def)
  show "trillado_form_page today fmt ((\<lambda>sheet. [])(Recebimiento := [[Str (lit ''id'')], []])) =
       Inl IndexError"
    by (simp add: trillado_form_page_def recibimiento_ids_def get_all_values_def slice_from1_def
        py_index_first)
  show "trillado_submit_form fmt ((\<lambda>sheet. [])(Recebimiento := [[Str (lit ''id'')], []])) tf =
       Inl IndexError"
    by (simp add: trillado_submit_form_def recibimiento_ids_def get_all_values_def
        slice_from1_def py_index_first)
  show "trillado_submit_form fmt ((\<lambda>sheet. [])(Trillado := [[Str (lit ''id'')], []])) tf =
       Inl IndexError"
    by (simp add: trillado_submit_form_def recibimiento_ids_def existing_ids_trillado_def
        get_all_values_def slice_from1_def py_index_last Let_def)
  show "perfilado_submit_form fmt ((\<lambda>sheet. [])(Perfilado := [[Str (lit ''id'')], []]))
       example_perfilado = Inl IndexError"
    by (simp add: perfilado_submit_form_def example_perfilado_def perda_casca_100_90
        id_trillado_options_total existing_ids_perfilado_def get_all_values_def
        slice_from1_def py_index_first)
qed
end
